theory Spec2Isabelle
  imports Complex_Main "HOL-Library.Word" "HOL-Library.Signed_Division"
begin

section \<open>Types, extents and results\<close>

text \<open>
  Extents, tile sizes and the sizes carried by attributes are \<open>int64_t\<close> in
  \<open>LinalgExtOps.cpp\<close>: 64-bit words here, read as two's complement by \<open>sint\<close> and
  compared with the signed orders \<open>word_sle\<close> and \<open>word_sless\<close>. Dimension positions
  (\<open>inner_dims_pos\<close>, \<open>outer_dims_perm\<close>, \<open>dimension_map\<close>, image dimensions) are
  \<open>int64_t\<close> too, but only ever compared with a rank or used as an index: they are
  \<open>int\<close>. Ranks and operand counts are list lengths.
\<close>

type_synonym int64 = "64 word"

text \<open>\<open>ShapedType::kDynamic\<close>, the least \<open>int64_t\<close>, marks an extent that is not known
  statically; \<open>ShapedType::isDynamic\<close> tests for it.\<close>

definition kDynamic :: int64 where
  "kDynamic = - (2 ^ 63)"

definition isDynamic :: "int64 \<Rightarrow> bool" where
  "isDynamic dValue = (dValue = kDynamic)"

datatype Type =
    IntegerType nat
  | IndexType
  | BFloat16Type
  | Float16Type
  | Float32Type
  | Float64Type
  | ComplexType Type
  | RankedTensorType "int64 list" Type
  | MemRefType "int64 list" Type

text \<open>A \<open>ShapedType\<close> as the accessors of an operation hand it out: its shape and its
  element type; \<open>isMemRef\<close> tells a \<open>MemRefType\<close> from a \<open>RankedTensorType\<close>.\<close>

record ShapedType =
  getShape :: "int64 list"
  getElementType :: Type
  isMemRef :: bool

definition getRank :: "ShapedType \<Rightarrow> nat" where
  "getRank t = length (getShape t)"

fun dyn_cast_ShapedType :: "Type \<Rightarrow> ShapedType option" where
  "dyn_cast_ShapedType (RankedTensorType s e) =
     Some \<lparr>getShape = s, getElementType = e, isMemRef = False\<rparr>"
| "dyn_cast_ShapedType (MemRefType s e) =
     Some \<lparr>getShape = s, getElementType = e, isMemRef = True\<rparr>"
| "dyn_cast_ShapedType _ = None"

definition isa_ShapedType :: "Type \<Rightarrow> bool" where
  "isa_ShapedType t = (dyn_cast_ShapedType t \<noteq> None)"

fun isFloatType :: "Type \<Rightarrow> bool" where
  "isFloatType BFloat16Type = True"
| "isFloatType Float16Type = True"
| "isFloatType Float32Type = True"
| "isFloatType Float64Type = True"
| "isFloatType _ = False"

fun isIntOrFloat :: "Type \<Rightarrow> bool" where
  "isIntOrFloat (IntegerType w) = True"
| "isIntOrFloat t = isFloatType t"

definition isInteger :: "nat \<Rightarrow> Type \<Rightarrow> bool" where
  "isInteger width t = (t = IntegerType width)"

fun getComplexElementTypeOrSelf :: "Type \<Rightarrow> Type" where
  "getComplexElementTypeOrSelf (ComplexType e) = e"
| "getComplexElementTypeOrSelf ty = ty"

text \<open>A \<open>LogicalResult\<close> together with the diagnostic emitted on failure.\<close>

datatype LogicalResult = Success | Failure string

fun succeeded :: "LogicalResult \<Rightarrow> bool" where
  "succeeded Success = True"
| "succeeded (Failure msg) = False"

text \<open>An SSA value is either the result of a constant-integer operation, which
  \<open>matchPattern(v, m_ConstantInt)\<close> recognises, or any other value. An \<open>OpFoldResult\<close>
  is an integer attribute or an SSA value.\<close>

datatype Value = ConstantOpResult int64 | OtherValue nat

datatype OpFoldResult = Attr int64 | Val Value

fun getConstantIntValue :: "OpFoldResult \<Rightarrow> int64 option" where
  "getConstantIntValue (Attr c) = Some c"
| "getConstantIntValue (Val (ConstantOpResult c)) = Some c"
| "getConstantIntValue (Val (OtherValue n)) = None"

definition isConstantIntValue :: "OpFoldResult \<Rightarrow> int64 \<Rightarrow> bool" where
  "isConstantIntValue ofr c = (getConstantIntValue ofr = Some c)"

fun getValueOrCreateConstantIndexOp :: "OpFoldResult \<Rightarrow> Value" where
  "getValueOrCreateConstantIndexOp (Val v) = v"
| "getValueOrCreateConstantIndexOp (Attr c) = ConstantOpResult c"

fun isValue :: "OpFoldResult \<Rightarrow> bool" where
  "isValue (Val v) = True"
| "isValue (Attr c) = False"

section \<open>Shape algebra\<close>

text \<open>\<open>isInvalid\<close> (lines 77-91): more positions than the rank, a duplicate, or a
  position outside \<open>[0, rank)\<close>.\<close>

definition isInvalid :: "int list \<Rightarrow> nat \<Rightarrow> bool" where
  "isInvalid dimsPos rank =
     (if length dimsPos > rank then True
      else if length dimsPos \<noteq> length (remdups dimsPos) then True
      else list_ex (\<lambda>dimPos. dimPos < 0 \<or> dimPos \<ge> int rank) dimsPos)"

text \<open>\<open>isSmallerThan\<close> (lines 95-108). The assertion on equal ranks is the \<open>None\<close>
  branch.\<close>

definition isSmallerThan :: "int64 list \<Rightarrow> int64 list \<Rightarrow> bool option" where
  "isSmallerThan sourceShape limitShape =
     (if length sourceShape \<noteq> length limitShape then None
      else Some (list_all (\<lambda>(sourceExtent, limit).
                   isDynamic sourceExtent \<or> isDynamic limit \<or> word_sle sourceExtent limit)
                 (zip sourceShape limitShape)))"

text \<open>Modelled from the spec: \<open>verifyCompatibleShape\<close> of MLIR's \<open>TypeUtilities\<close>, on
  two extents and on two shapes: two shapes are compatible when they have equal rank and
  at every axis either extent is dynamic or the extents are equal.\<close>

definition verifyCompatibleDim :: "int64 \<Rightarrow> int64 \<Rightarrow> bool" where
  "verifyCompatibleDim dim1 dim2 = (isDynamic dim1 \<or> isDynamic dim2 \<or> dim1 = dim2)"

definition verifyCompatibleShape :: "int64 list \<Rightarrow> int64 list \<Rightarrow> bool" where
  "verifyCompatibleShape shape1 shape2 =
     (length shape1 = length shape2 \<and>
      list_all (\<lambda>(dim1, dim2). verifyCompatibleDim dim1 dim2) (zip shape1 shape2))"

text \<open>Modelled from the spec: \<open>ceilDiv\<close> of \<open>mlir/Support/MathExtras.h\<close>, which is not
  part of the sources at hand: the ceiling of \<open>lhs / rhs\<close> on signed 64-bit integers. Its
  callers check \<open>rhs \<noteq> 0\<close> first (the function asserts it).\<close>

definition ceilDiv :: "int64 \<Rightarrow> int64 \<Rightarrow> int64" where
  "ceilDiv lhs rhs = word_of_int (- ((- sint lhs) div sint rhs))"

text \<open>Modelled from the spec: \<open>interchange\<close> of \<open>Utils/Utils.h\<close>, which is not part of
  the sources at hand, at offset 0: entry \<open>i\<close> of the result is entry
  \<open>interchangeVector[i]\<close> of \<open>elements\<close> for every position \<open>i\<close> of the interchange
  vector, the other entries stay. A read or write out of range is \<open>None\<close>.\<close>

fun interchangeLoop :: "'a list \<Rightarrow> (nat \<times> int) list \<Rightarrow> 'a list \<Rightarrow> 'a list option" where
  "interchangeLoop elements [] vec = Some vec"
| "interchangeLoop elements ((idx, val) # rest) vec =
     (if idx \<ge> length vec \<or> val < 0 \<or> val \<ge> int (length elements) then None
      else interchangeLoop elements rest (vec[idx := elements ! nat val]))"

definition interchange :: "'a list \<Rightarrow> int list \<Rightarrow> 'a list option" where
  "interchange elements interchangeVector =
     interchangeLoop elements (enumerate 0 interchangeVector) elements"

text \<open>Modelled from the spec: \<open>asShapeWithAnyValueAsDynamic\<close> of \<open>Utils/Utils.h\<close>, which
  is not part of the sources at hand: an SSA value counts as dynamic, an integer attribute
  as its value.\<close>

fun asExtentWithAnyValueAsDynamic :: "OpFoldResult \<Rightarrow> int64" where
  "asExtentWithAnyValueAsDynamic (Val v) = kDynamic"
| "asExtentWithAnyValueAsDynamic (Attr c) = c"

definition asShapeWithAnyValueAsDynamic :: "OpFoldResult list \<Rightarrow> int64 list" where
  "asShapeWithAnyValueAsDynamic ofrs = map asExtentWithAnyValueAsDynamic ofrs"

section \<open>Pack and UnPack: the packed shape\<close>

text \<open>\<open>getPackOpResultTypeShape\<close> (lines 801-822). The loop over
  \<open>llvm::enumerate(innerDimsPos)\<close> is \<open>tileCountLoop\<close>; an index out of range and a
  division by a zero tile size are \<open>None\<close>.\<close>

fun tileCountLoop :: "int64 list \<Rightarrow> (nat \<times> int) list \<Rightarrow> int64 list \<Rightarrow> int64 list option" where
  "tileCountLoop innerTileSizes [] resultShape = Some resultShape"
| "tileCountLoop innerTileSizes ((idx, tiledDim) # rest) resultShape =
     (if tiledDim < 0 \<or> tiledDim \<ge> int (length resultShape) then None
      else if isDynamic (resultShape ! nat tiledDim) then
        tileCountLoop innerTileSizes rest resultShape
      else if idx \<ge> length innerTileSizes then None
      else if isDynamic (innerTileSizes ! idx) then
        tileCountLoop innerTileSizes rest (resultShape[nat tiledDim := kDynamic])
      else if innerTileSizes ! idx = 0 then None
      else tileCountLoop innerTileSizes rest
             (resultShape[nat tiledDim :=
                ceilDiv (resultShape ! nat tiledDim) (innerTileSizes ! idx)]))"

definition getPackOpResultTypeShape ::
  "int64 list \<Rightarrow> int64 list \<Rightarrow> int list \<Rightarrow> int list \<Rightarrow> int64 list option" where
  "getPackOpResultTypeShape sourceShape innerTileSizes innerDimsPos outerDimsPerm =
     (case tileCountLoop innerTileSizes (enumerate 0 innerDimsPos) sourceShape of
        None \<Rightarrow> None
      | Some resultShape \<Rightarrow>
          (case interchange resultShape outerDimsPerm of
             None \<Rightarrow> None
           | Some permuted \<Rightarrow> Some (permuted @ innerTileSizes)))"

text \<open>\<open>PackOp::getPackedType\<close> (lines 867-886): the same shape with the element type
  and the kind of the source type.\<close>

definition getPackedType ::
  "ShapedType \<Rightarrow> int64 list \<Rightarrow> int list \<Rightarrow> int list \<Rightarrow> ShapedType option" where
  "getPackedType sourceType innerTileSizes innerDimsPos outerDimsPerm =
     (case getPackOpResultTypeShape (getShape sourceType) innerTileSizes innerDimsPos
             outerDimsPerm of
        None \<Rightarrow> None
      | Some resultTypeShape \<Rightarrow> Some (sourceType\<lparr>getShape := resultTypeShape\<rparr>))"

text \<open>\<open>PackOp::getResultShape\<close> (lines 824-861) on symbolic dimensions.
  \<open>affine::makeComposedFoldedAffineApply\<close> on \<open>s0 ceildiv s1\<close> belongs to MLIR: it is
  the parameter \<open>composedCeilDiv\<close>.\<close>

fun ceilDivLoop ::
  "(OpFoldResult \<Rightarrow> OpFoldResult \<Rightarrow> OpFoldResult) \<Rightarrow> OpFoldResult list \<Rightarrow>
   (nat \<times> int) list \<Rightarrow> OpFoldResult list \<Rightarrow> OpFoldResult list option" where
  "ceilDivLoop composedCeilDiv innerTileSizes [] resultDims = Some resultDims"
| "ceilDivLoop composedCeilDiv innerTileSizes ((idx, tiledDim) # rest) resultDims =
     (if tiledDim < 0 \<or> tiledDim \<ge> int (length resultDims) then None
      else if idx \<ge> length innerTileSizes then None
      else ceilDivLoop composedCeilDiv innerTileSizes rest
             (resultDims[nat tiledDim :=
                composedCeilDiv (resultDims ! nat tiledDim) (innerTileSizes ! idx)]))"

definition fixUpResultDims :: "OpFoldResult list \<Rightarrow> int64 list \<Rightarrow> OpFoldResult list option" where
  "fixUpResultDims resultDims resultTypeShape =
     (if length resultTypeShape < length resultDims then None
      else Some (map (\<lambda>(resultDim, extent).
                   if \<not> isDynamic extent then resultDim
                   else Val (getValueOrCreateConstantIndexOp resultDim))
                 (zip resultDims resultTypeShape)))"

definition getResultShape ::
  "(OpFoldResult \<Rightarrow> OpFoldResult \<Rightarrow> OpFoldResult) \<Rightarrow> OpFoldResult list \<Rightarrow>
   OpFoldResult list \<Rightarrow> int list \<Rightarrow> int list \<Rightarrow> OpFoldResult list option" where
  "getResultShape composedCeilDiv sourceDims innerTileSizes innerDimsPos outerDimsPerm =
     (case ceilDivLoop composedCeilDiv innerTileSizes (enumerate 0 innerDimsPos) sourceDims of
        None \<Rightarrow> None
      | Some tiledDims \<Rightarrow>
          (case (if outerDimsPerm \<noteq> [] then interchange tiledDims outerDimsPerm
                 else Some tiledDims) of
             None \<Rightarrow> None
           | Some permuted \<Rightarrow>
               (case getPackOpResultTypeShape (asShapeWithAnyValueAsDynamic sourceDims)
                       (asShapeWithAnyValueAsDynamic innerTileSizes) innerDimsPos
                       outerDimsPerm of
                  None \<Rightarrow> None
                | Some resultTypeShape \<Rightarrow>
                    fixUpResultDims (permuted @ innerTileSizes) resultTypeShape)))"

text \<open>A constant-folding \<open>composedCeilDiv\<close>: two integer attributes fold to the
  attribute of their \<open>ceilDiv\<close>, anything else becomes the result of an
  \<open>affine.apply\<close> operation.\<close>

fun foldedCeilDiv :: "OpFoldResult \<Rightarrow> OpFoldResult \<Rightarrow> OpFoldResult" where
  "foldedCeilDiv (Attr a) (Attr b) =
     (if b = 0 then Val (OtherValue 0) else Attr (ceilDiv a b))"
| "foldedCeilDiv x y = Val (OtherValue 0)"

section \<open>Pack and UnPack: verification\<close>

text \<open>What the verifiers read of a pack or unpack operation: the types of its input and
  output, the two position attributes, the static tile sizes with \<open>kDynamic\<close> at the
  dynamic ones, the dynamic tile operands and, for a pack, the type of the padding value
  if there is one.\<close>

record PackOrUnPackOp =
  pack_inputType :: ShapedType
  pack_outputType :: ShapedType
  inner_dims_pos :: "int list"
  outer_dims_perm :: "int list"
  static_inner_tiles :: "int64 list"
  inner_tiles :: "Value list"
  padding_value :: "Type option"

text \<open>The template parameter \<open>OpTy\<close>.\<close>

datatype OpTy = PackOp | UnPackOp

text \<open>\<open>hasZeros\<close> (lines 576-579).\<close>

definition hasZeros :: "OpFoldResult list \<Rightarrow> bool" where
  "hasZeros tiles = list_ex (\<lambda>tile. isConstantIntValue tile 0) tiles"

text \<open>\<open>getMixedTiles\<close> (lines 605-620): a static tile size becomes an attribute, a
  dynamic one takes the next dynamic operand; running out of operands is \<open>None\<close>.\<close>

fun mixedTilesLoop :: "int64 list \<Rightarrow> Value list \<Rightarrow> OpFoldResult list option" where
  "mixedTilesLoop [] dynamicVals = Some []"
| "mixedTilesLoop (tileSize # rest) dynamicVals =
     (if \<not> isDynamic tileSize then
        map_option ((#) (Attr tileSize)) (mixedTilesLoop rest dynamicVals)
      else (case dynamicVals of
              [] \<Rightarrow> None
            | v # vs \<Rightarrow> map_option ((#) (Val v)) (mixedTilesLoop rest vs)))"

definition getMixedTiles :: "PackOrUnPackOp \<Rightarrow> OpFoldResult list option" where
  "getMixedTiles op = mixedTilesLoop (static_inner_tiles op) (inner_tiles op)"

text \<open>\<open>dispatchIndexOpFoldResults\<close> (MLIR): the SSA values, and the static sizes with
  \<open>kDynamic\<close> in the place of every SSA value.\<close>

fun dispatchIndexOpFoldResults :: "OpFoldResult list \<Rightarrow> Value list \<times> int64 list" where
  "dispatchIndexOpFoldResults [] = ([], [])"
| "dispatchIndexOpFoldResults (Attr c # rest) =
     (case dispatchIndexOpFoldResults rest of (dynamicVec, staticVec) \<Rightarrow>
        (dynamicVec, c # staticVec))"
| "dispatchIndexOpFoldResults (Val v # rest) =
     (case dispatchIndexOpFoldResults rest of (dynamicVec, staticVec) \<Rightarrow>
        (v # dynamicVec, kDynamic # staticVec))"

text \<open>\<open>getStaticTiles\<close> (lines 624-632).\<close>

definition getStaticTiles :: "PackOrUnPackOp \<Rightarrow> int64 list option" where
  "getStaticTiles op =
     map_option (\<lambda>mixedTiles. snd (dispatchIndexOpFoldResults mixedTiles)) (getMixedTiles op)"

text \<open>\<open>getDimAndTileMapping\<close> (lines 637-651); the assertion on the two sizes is a
  \<open>None\<close> branch.\<close>

definition getDimAndTileMapping :: "PackOrUnPackOp \<Rightarrow> (int \<rightharpoonup> OpFoldResult) option" where
  "getDimAndTileMapping op =
     (case getMixedTiles op of
        None \<Rightarrow> None
      | Some tiles \<Rightarrow>
          (let dimsToBlock = inner_dims_pos op in
           if length tiles \<noteq> length dimsToBlock then None
           else Some (fold (\<lambda>i dimAndTileMapping.
                              dimAndTileMapping(dimsToBlock ! i \<mapsto> tiles ! i))
                        [0..<length dimsToBlock] Map.empty)))"

text \<open>\<open>areNotFullTiles\<close> (lines 583-600): the loop over the dimensions returns at the
  first static dimension with a constant tile size that leaves a remainder. The
  remainder by a zero tile size is undefined: \<open>None\<close>.\<close>

fun areNotFullTilesLoop ::
  "int64 list \<Rightarrow> (int \<rightharpoonup> OpFoldResult) \<Rightarrow> nat list \<Rightarrow> bool option" where
  "areNotFullTilesLoop inputShape dimAndTileMapping [] = Some False"
| "areNotFullTilesLoop inputShape dimAndTileMapping (dimIdx # rest) =
     (if isDynamic (inputShape ! dimIdx) then
        areNotFullTilesLoop inputShape dimAndTileMapping rest
      else (case dimAndTileMapping (int dimIdx) of
              None \<Rightarrow> areNotFullTilesLoop inputShape dimAndTileMapping rest
            | Some tile \<Rightarrow>
                (case getConstantIntValue tile of
                   None \<Rightarrow> areNotFullTilesLoop inputShape dimAndTileMapping rest
                 | Some constantTile \<Rightarrow>
                     if constantTile = 0 then None
                     else if sint (inputShape ! dimIdx) smod sint constantTile \<noteq> 0 then Some True
                     else areNotFullTilesLoop inputShape dimAndTileMapping rest)))"

definition areNotFullTiles :: "int64 list \<Rightarrow> (int \<rightharpoonup> OpFoldResult) \<Rightarrow> bool option" where
  "areNotFullTiles inputShape dimAndTileMapping =
     areNotFullTilesLoop inputShape dimAndTileMapping [0..<length inputShape]"

text \<open>The test on one trailing axis of the packed type and its tile size (the lambda of
  lines 711-729).\<close>

definition tileMatchesShape :: "int64 \<times> OpFoldResult \<Rightarrow> bool" where
  "tileMatchesShape it =
     (case getConstantIntValue (snd it) of
        None \<Rightarrow> isDynamic (fst it)
      | Some constTileSize \<Rightarrow>
          if isDynamic (fst it) then True else fst it = constTileSize)"

definition take_back :: "nat \<Rightarrow> 'a list \<Rightarrow> 'a list" where
  "take_back n xs = drop (length xs - n) xs"

text \<open>\<open>commonVerifierPackAndUnPackOp\<close> (lines 654-734). \<open>None\<close> is an assertion
  failure on the way, \<open>Some\<close> the result of the verifier.\<close>

definition commonVerifierPackAndUnPackOp :: "OpTy \<Rightarrow> PackOrUnPackOp \<Rightarrow> LogicalResult option" where
  "commonVerifierPackAndUnPackOp opTy packOrUnPack =
     (let unpackedType = (if opTy = PackOp then pack_inputType packOrUnPack
                          else pack_outputType packOrUnPack);
          unpackedRank = getRank unpackedType;
          innerDimsPos = inner_dims_pos packOrUnPack;
          outerDimPerm = outer_dims_perm packOrUnPack
      in case getMixedTiles packOrUnPack of
           None \<Rightarrow> None
         | Some mixedTiles \<Rightarrow>
             if hasZeros mixedTiles then Some (Failure ''invalid tile factor'')
             else if isInvalid innerDimsPos unpackedRank then
               Some (Failure ''invalid inner_dims_pos vector'')
             else if isInvalid outerDimPerm unpackedRank then
               Some (Failure ''invalid outer_dims_perm vector'')
             else if length mixedTiles \<noteq> length innerDimsPos then
               Some (Failure ''blocking factors must equal the number of dimensions to block'')
             else if length mixedTiles > unpackedRank then
               Some (Failure ''blocking factors must be less or equal than the input rank'')
             else
               (let packedType = (if opTy = PackOp then pack_outputType packOrUnPack
                                  else pack_inputType packOrUnPack);
                    packedRank = getRank packedType
                in if unpackedRank + length mixedTiles \<noteq> packedRank then
                     Some (Failure ''packed rank must equal unpacked rank + blocking factors'')
                   else
                     (case getStaticTiles packOrUnPack of
                        None \<Rightarrow> None
                      | Some staticTiles \<Rightarrow>
                     (case getPackedType unpackedType staticTiles innerDimsPos outerDimPerm of
                        None \<Rightarrow> None
                      | Some expectedPackedType \<Rightarrow>
                     (case isSmallerThan (getShape expectedPackedType) (getShape packedType) of
                        None \<Rightarrow> None
                      | Some smaller \<Rightarrow>
                          if \<not> smaller then
                            Some (Failure (''the shape of output is not large enough to hold '' @
                                           ''the packed data''))
                          else if \<not> list_all tileMatchesShape
                                      (zip (take_back (length mixedTiles) (getShape packedType))
                                           mixedTiles) then
                            Some (Failure (''mismatch in inner tile sizes specified and shaped '' @
                                           ''of tiled dimension in the packed type''))
                          else Some Success)))))"

text \<open>\<open>PackOp::verify\<close> (lines 765-788) and \<open>UnPackOp::verify\<close> (lines 942-947).\<close>

definition checkPaddingValue :: "PackOrUnPackOp \<Rightarrow> LogicalResult" where
  "checkPaddingValue op =
     (case padding_value op of
        None \<Rightarrow> Success
      | Some paddingType \<Rightarrow>
          if paddingType \<noteq> getElementType (pack_inputType op) then
            Failure ''expected padding_value has the element type of the input''
          else Success)"

definition PackOp_verify :: "PackOrUnPackOp \<Rightarrow> LogicalResult option" where
  "PackOp_verify op =
     (case commonVerifierPackAndUnPackOp PackOp op of
        None \<Rightarrow> None
      | Some (Failure msg) \<Rightarrow> Some (Failure msg)
      | Some Success \<Rightarrow>
          (case getDimAndTileMapping op of
             None \<Rightarrow> None
           | Some dimAndTileMapping \<Rightarrow>
               if padding_value op = None then
                 (case areNotFullTiles (getShape (pack_inputType op)) dimAndTileMapping of
                    None \<Rightarrow> None
                  | Some notFull \<Rightarrow>
                      if notFull then
                        Some (Failure (''invalid tile factor provided. Only full tiles are '' @
                                       ''supported when padding_value is not set''))
                      else Some (checkPaddingValue op))
               else Some (checkPaddingValue op)))"

definition UnPackOp_verify :: "PackOrUnPackOp \<Rightarrow> LogicalResult option" where
  "UnPackOp_verify op =
     (case commonVerifierPackAndUnPackOp UnPackOp op of
        None \<Rightarrow> None
      | Some (Failure msg) \<Rightarrow> Some (Failure msg)
      | Some Success \<Rightarrow> Some Success)"

section \<open>Scatter\<close>

text \<open>What \<open>ScatterOp::verify\<close> reads. The accessors \<open>getIndicesType\<close>,
  \<open>getUpdateType\<close> and \<open>getOriginalType\<close> are declared with the operation, outside
  \<open>LinalgExtOps.cpp\<close>: what they return is a field here. The region is its block
  arguments and the operands of its terminating yield.\<close>

record ScatterOp =
  scatter_numInputs :: nat
  scatter_numOutputs :: nat
  indicesType :: ShapedType
  updateType :: ShapedType
  originalType :: ShapedType
  dimension_map :: "int list"
  scatter_bodyArguments :: "Type list"
  scatter_yieldOperands :: "Type list"

text \<open>Modelled from the spec: \<open>getIndexDepth\<close>, declared with the operation outside
  \<open>LinalgExtOps.cpp\<close>. The index depth is the number of indexed axes, which is the
  length of one index tuple: the trailing extent of the indices type. It is an extent of
  a shape and not an attribute of its own, which is why line 133 tests it with
  \<open>ShapedType::isDynamic\<close>. \<open>ScatterOp::verify\<close> reads it at line 132, after the
  indices are known to have rank 2.\<close>

definition getIndexDepth :: "ScatterOp \<Rightarrow> int64" where
  "getIndexDepth op = last (getShape (indicesType op))"

text \<open>\<open>llvm::seq<unsigned>(begin, end)\<close>. Where \<open>ScatterOp::verify\<close> builds its two
  pairs of sequences the earlier checks have made \<open>0 \<le> begin \<le> end\<close>, and the two
  sequences zipped together have the same length.\<close>

definition seq :: "int \<Rightarrow> int \<Rightarrow> nat list" where
  "seq begin end = map nat [begin..end - 1]"

text \<open>The test of both loops (lines 178-180 and 193-195): the original dimension is
  static and the update dimension is greater.\<close>

definition updateExceedsOriginal :: "ShapedType \<Rightarrow> ShapedType \<Rightarrow> nat \<times> nat \<Rightarrow> bool" where
  "updateExceedsOriginal original update it =
     (\<not> isDynamic (getShape original ! fst it) \<and>
      word_sless (getShape original ! fst it) (getShape update ! snd it))"

text \<open>\<open>ScatterOp::verify\<close> (lines 114-239).\<close>

definition ScatterOp_verifyRegion :: "ScatterOp \<Rightarrow> LogicalResult" where
  "ScatterOp_verifyRegion op =
     (if length (scatter_bodyArguments op) \<noteq> 2 then
        Failure ''expected region to have two arguments''
      else
        (let arg0Type = scatter_bodyArguments op ! 0;
             arg1Type = scatter_bodyArguments op ! 1
         in if \<not> isIntOrFloat (getComplexElementTypeOrSelf arg0Type) \<or>
               \<not> isIntOrFloat (getComplexElementTypeOrSelf arg1Type) then
              Failure ''expected region to have scalar argument of integer or float types''
            else if arg0Type \<noteq> getElementType (updateType op) then
              Failure ''mismatch in argument 0 of region and element type of update value''
            else if arg1Type \<noteq> getElementType (originalType op) then
              Failure ''mismatch in argument 1 of region and element type of original value''
            else if arg0Type \<noteq> arg1Type then
              Failure ''mismatch in region argument types''
            else if length (scatter_yieldOperands op) \<noteq> 1 then
              Failure ''expected region to yield a single value''
            else if scatter_yieldOperands op ! 0 \<noteq> arg0Type then
              Failure ''mismatch in type of yielded value and argument of the region''
            else Success))"

definition ScatterOp_verify :: "ScatterOp \<Rightarrow> LogicalResult" where
  "ScatterOp_verify op =
     (if scatter_numInputs op \<noteq> 2 then Failure ''expected two input operands''
      else if scatter_numOutputs op \<noteq> 1 then Failure ''expected one output operand''
      else if getRank (indicesType op) \<noteq> 2 \<or>
              \<not> isInteger 32 (getElementType (indicesType op)) then
        Failure ''expected indices to be of rank 2 of i32 element type''
      else if isDynamic (getIndexDepth op) then Failure ''expected index depth is static''
      else if int (length (dimension_map op)) \<noteq> sint (getIndexDepth op) then
        Failure ''invalid number of dimension map entries ''
      else if isInvalid (dimension_map op) (getRank (originalType op)) then
        Failure ''dimension map is invalid''
      else if getRank (updateType op) < 1 then
        Failure ''expected update value to be at least rank 1''
      else if getShape (indicesType op) ! 0 \<noteq> getShape (updateType op) ! 0 then
        Failure ''mismatch in shape of indices and update value at dim#0''
      else if int (getRank (updateType op)) - 1 > int (getRank (originalType op)) then
        Failure ''update value rank exceeds the rank of the original value''
      else if int (getRank (originalType op)) >
              sint (getIndexDepth op) + int (getRank (updateType op)) - 1 then
        Failure ''index depth and update value does not cover rank of original value''
      else
        (let originalRank = int (getRank (originalType op));
             updateRank = int (getRank (updateType op));
             fullSliceDims = originalRank - sint (getIndexDepth op);
             insertDims = originalRank - updateRank + 1
         in if list_ex (updateExceedsOriginal (originalType op) (updateType op))
                 (zip (seq (sint (getIndexDepth op)) originalRank)
                      (seq (updateRank - fullSliceDims) updateRank)) then
              Failure ''shape of update value exceeds original value''
            else if list_ex (updateExceedsOriginal (originalType op) (updateType op))
                      (zip (seq insertDims (sint (getIndexDepth op)))
                           (seq 1 (updateRank - fullSliceDims))) then
              Failure ''indexed shape of update value exceeds original value''
            else ScatterOp_verifyRegion op))"

section \<open>Sort\<close>

text \<open>What \<open>SortOp::verify\<close> reads. \<open>getOperandRank\<close> and \<open>getOperandShape\<close> are
  declared with the operation, outside \<open>LinalgExtOps.cpp\<close>: what they return is a
  field. \<open>getDimension\<close> returns the 64-bit unsigned value of the \<open>dimension\<close>
  attribute (line 534 stores it in a \<open>uint64_t\<close>).\<close>

record SortOp =
  sort_numDpsInputs :: nat
  sort_outputs :: "ShapedType list"
  sort_blockArguments :: "Type list"
  sort_dimension :: "64 word"
  operandRank :: nat
  operandShape :: "int64 list"
  sort_yieldOperands :: "Type list"

text \<open>The loop over \<open>llvm::enumerate(getOutputs())\<close> (lines 275-294).\<close>

fun sortOperandLoop ::
  "nat \<Rightarrow> int64 list \<Rightarrow> Type list \<Rightarrow> (nat \<times> ShapedType) list \<Rightarrow> LogicalResult" where
  "sortOperandLoop rank shape blockArguments [] = Success"
| "sortOperandLoop rank shape blockArguments ((index, operandType) # rest) =
     (if getRank operandType \<noteq> rank then
        Failure ''expected operand to be of the same rank as other operands''
      else if getShape operandType \<noteq> shape then
        Failure ''expected operand to have same shape as other operands''
      else if list_ex (\<lambda>i. blockArguments ! i \<noteq> getElementType operandType)
                [2 * index, 2 * index + 1] then
        Failure ''region block argument should be of the element type of the operand''
      else sortOperandLoop rank shape blockArguments rest)"

text \<open>\<open>SortOp::verify\<close> (lines 252-306). Line 269, \<open>int sortDim = getDimension()\<close>,
  narrows the unsigned 64-bit dimension to a signed 32-bit \<open>int\<close>: the low 32 bits, read
  in two's complement. The comparison with the \<open>int64_t\<close> rank is then signed.\<close>

definition SortOp_verify :: "SortOp \<Rightarrow> LogicalResult" where
  "SortOp_verify op =
     (if sort_numDpsInputs op \<noteq> 0 then Failure ''does not expect to take any inputs''
      else if length (sort_outputs op) = 0 then
        Failure ''expected at least one `outs` operand''
      else if length (sort_blockArguments op) \<noteq> 2 * length (sort_outputs op) then
        Failure ''region block should have two arguments for every output''
      else if (let sortDim = sint (ucast (sort_dimension op) :: 32 word)
               in sortDim < 0 \<or> sortDim \<ge> int (operandRank op)) then
        Failure ''dimension must be within (0, rank]''
      else
        (case sortOperandLoop (operandRank op) (operandShape op) (sort_blockArguments op)
                (enumerate 0 (sort_outputs op)) of
           Failure msg \<Rightarrow> Failure msg
         | Success \<Rightarrow>
             if length (sort_yieldOperands op) \<noteq> 1 then
               Failure ''should yield exactly one operand''
             else if sort_yieldOperands op ! 0 \<noteq> IntegerType 1 then
               Failure ''should yield i1 type''
             else Success))"

section \<open>FFT\<close>

text \<open>What \<open>FftOp::verify\<close> reads: the length that \<open>getFftLength\<close> returns (declared
  with the operation), the types of the inputs and the number of outputs. An operand is
  scalar when its type is not shaped.\<close>

record FftOp =
  fftLength :: int64
  fft_dpsInputs :: "Type list"
  fft_numDpsInits :: nat

definition isScalar :: "Type \<Rightarrow> bool" where
  "isScalar t = (\<not> isa_ShapedType t)"

text \<open>\<open>FftOp::verify\<close> (lines 319-344).\<close>

definition FftOp_verify :: "FftOp \<Rightarrow> LogicalResult" where
  "FftOp_verify op =
     (let len = fftLength op; numDpsInputs = length (fft_dpsInputs op)
      in if isDynamic len then Success
         else if and len (len - 1) \<noteq> 0 then
           Failure ''only powers of 2 are handled currently''
         else if numDpsInputs = 0 \<or> \<not> isScalar (fft_dpsInputs op ! 0) then
           Failure ''expected to carry `stage` input''
         else if numDpsInputs \<noteq> 1 \<and>
                 (numDpsInputs \<noteq> 3 \<or> isScalar (fft_dpsInputs op ! 1) \<or>
                  isScalar (fft_dpsInputs op ! 2)) then
           Failure ''expected to carry real and imag coeff inputs''
         else if fft_numDpsInits op \<noteq> 2 then
           Failure ''expected outputs to be real and imag tensor/memref''
         else Success)"

section \<open>Winograd input transform\<close>

text \<open>The image extent of the rank-4 form is computed in single precision (line 1026):
  \<open>std::ceil((float)(inputShape[i] - kernelSize + 1) / outputTileSize)\<close>. Both operands
  are converted to \<open>float\<close>, the quotient is a \<open>float\<close>, and the ceiling is converted
  back to \<open>int64_t\<close>. \<open>roundToFloat\<close> is IEEE-754 binary32 rounding, to nearest with ties
  to even, of a rational: 24 significant bits. A 64-bit integer and the quotient of two
  of them stay clear of the subnormal numbers and of overflow.\<close>

function bitLength :: "int \<Rightarrow> int" where
  "bitLength n = (if n \<le> 0 then 0 else 1 + bitLength (n div 2))"
  by pat_completeness auto
termination
  by (relation "measure nat") auto

declare bitLength.simps [simp del]

text \<open>For \<open>0 < x\<close>, the exponent \<open>e\<close> with \<open>2\<^sup>e \<le> x < 2\<^sup>e\<^sup>+\<^sup>1\<close>.\<close>

definition floorLog2 :: "rat \<Rightarrow> int" where
  "floorLog2 x = (if 1 \<le> x then bitLength \<lfloor>x\<rfloor> - 1
                  else - bitLength (\<lceil>1 / x\<rceil> - 1))"

definition roundHalfEven :: "rat \<Rightarrow> int" where
  "roundHalfEven x =
     (let f = \<lfloor>x\<rfloor>; r = x - of_int f
      in if r < 1 / 2 then f else if 1 / 2 < r then f + 1
         else if even f then f else f + 1)"

definition roundToFloat :: "rat \<Rightarrow> rat" where
  "roundToFloat x =
     (if x = 0 then 0
      else (let ulp = 2 powi (floorLog2 \<bar>x\<bar> - 23)
            in of_int (roundHalfEven (x / ulp)) * ulp))"

text \<open>\<open>std::ceil((float)n / d)\<close> as an \<open>int64_t\<close>. A zero divisor gives an infinity or a
  NaN, and a ceiling outside the 64-bit range does not convert: \<open>None\<close>.\<close>

definition ceilOfFloatQuotient :: "int64 \<Rightarrow> int64 \<Rightarrow> int64 option" where
  "ceilOfFloatQuotient n d =
     (let fn = roundToFloat (of_int (sint n)); fd = roundToFloat (of_int (sint d))
      in if fd = 0 then None
         else (let c = \<lceil>roundToFloat (fn / fd)\<rceil>
               in if c < - (2 ^ 63) \<or> 2 ^ 63 \<le> c then None else Some (word_of_int c)))"

text \<open>What \<open>WinogradInputTransformOp::verify\<close> reads. \<open>getInputTileSize\<close> is declared
  with the operation: what it returns is the field \<open>input_tile_size\<close>.\<close>

record WinogradInputTransformOp =
  winograd_numDpsInputs :: nat
  winograd_numDpsInits :: nat
  winograd_inputType :: ShapedType
  winograd_outputType :: ShapedType
  output_tile_size :: int64
  kernel_size :: int64
  input_tile_size :: int64
  image_dimensions :: "int list"

text \<open>Modelled from the spec: \<open>isNhwc\<close> and \<open>isNchw\<close>, declared with the operation: the
  image dimensions are the two middle axes of a channel-last layout, \<open>[1, 2]\<close>, or the
  two last axes of a channel-first layout, \<open>[2, 3]\<close> (the diagnostic of line 1008 names
  both).\<close>

definition isNhwc :: "WinogradInputTransformOp \<Rightarrow> bool" where
  "isNhwc op = (image_dimensions op = [1, 2])"

definition isNchw :: "WinogradInputTransformOp \<Rightarrow> bool" where
  "isNchw op = (image_dimensions op = [2, 3])"

text \<open>Modelled from the spec: \<open>permute<Permutation::TTNCHW_TO_TTNHWC>\<close> of
  \<open>Utils/Utils.h\<close>, which is not part of the sources at hand: the channel axis, fourth
  of six, moves to the end.\<close>

definition permute_TTNCHW_TO_TTNHWC :: "'a list \<Rightarrow> 'a list" where
  "permute_TTNCHW_TO_TTNHWC vector = take 3 vector @ rotate1 (drop 3 vector)"

text \<open>The loop of lines 1016-1028 over the input dimensions.\<close>

fun expectedOutputShapeLoop ::
  "WinogradInputTransformOp \<Rightarrow> int64 list \<Rightarrow> nat list \<Rightarrow> int64 list \<Rightarrow> int64 list option" where
  "expectedOutputShapeLoop op inputShape [] expectedOutputShape = Some expectedOutputShape"
| "expectedOutputShapeLoop op inputShape (i # rest) expectedOutputShape =
     (let outputIndex = i + length (image_dimensions op)
      in if outputIndex \<ge> length expectedOutputShape then None
         else if isDynamic (inputShape ! i) then
           expectedOutputShapeLoop op inputShape rest
             (expectedOutputShape[outputIndex := inputShape ! i])
         else if int i \<notin> set (image_dimensions op) then
           expectedOutputShapeLoop op inputShape rest
             (expectedOutputShape[outputIndex := inputShape ! i])
         else (case ceilOfFloatQuotient (inputShape ! i - kernel_size op + 1)
                      (output_tile_size op) of
                 None \<Rightarrow> None
               | Some tiles \<Rightarrow>
                   expectedOutputShapeLoop op inputShape rest
                     (expectedOutputShape[outputIndex := tiles])))"

text \<open>\<open>WinogradInputTransformOp::verify\<close> (lines 953-1037).\<close>

definition WinogradInputTransformOp_verify ::
  "WinogradInputTransformOp \<Rightarrow> LogicalResult option" where
  "WinogradInputTransformOp_verify op =
     (let inputType = winograd_inputType op; outputType = winograd_outputType op;
          inputRank = getRank inputType; outputRank = getRank outputType
      in if winograd_numDpsInputs op \<noteq> 1 then Some (Failure ''expected one input operand'')
         else if winograd_numDpsInits op \<noteq> 1 then
           Some (Failure ''expected one output operand'')
         else if getElementType outputType \<noteq> getElementType inputType then
           Some (Failure ''expected input/output element types to be identical'')
         else if inputRank \<noteq> 2 \<and> inputRank \<noteq> 4 then
           Some (Failure ''expected input operand to have rank either 2 or 4'')
         else if inputRank = 2 then
           (if outputRank \<noteq> 2 then
              Some (Failure ''expected output operand to have rank 2 if input is of rank 2'')
            else if (\<not> isDynamic (getShape inputType ! 0) \<and>
                     word_sless (input_tile_size op) (getShape inputType ! 0)) \<or>
                    (isDynamic (getShape inputType ! 1) \<and>
                     word_sless (input_tile_size op) (getShape inputType ! 1)) then
              Some (Failure (''expected input dims not greater than input tile '' @
                             ''size if input is of rank 2''))
            else if \<not> verifyCompatibleShape (replicate 2 (input_tile_size op))
                        (getShape outputType) then
              Some (Failure ''expected output dims equal to inputTileSize if input is of rank 2'')
            else Some Success)
         else if outputRank \<noteq> inputRank + 2 then
           Some (Failure ''expected output rank to be equal to input rank + 2'')
         else if length (image_dimensions op) \<noteq> 2 then
           Some (Failure ''expected only 2 image dimensions'')
         else if \<not> isNchw op \<and> \<not> isNhwc op then
           Some (Failure ''expect image dimensions to be either [1, 2] or [2, 3]'')
         else
           (case expectedOutputShapeLoop op (getShape inputType) [0..<length (getShape inputType)]
                   (replicate outputRank (input_tile_size op)) of
              None \<Rightarrow> None
            | Some computed \<Rightarrow>
                (let expectedOutputShape =
                       (if isNchw op then permute_TTNCHW_TO_TTNHWC computed else computed)
                 in if \<not> verifyCompatibleShape expectedOutputShape (getShape outputType) then
                      Some (Failure ''incompatible output shape'')
                    else Some Success)))"

section \<open>Attention\<close>

text \<open>What \<open>AttentionOp::verify\<close> reads: the types of the inputs (query, key, value and
  scale, in this order), the types of the outputs (output, then max and sum for the
  tiled form), and the \<open>transpose_v\<close> flag.\<close>

record AttentionOp =
  attention_dpsInputs :: "Type list"
  attention_dpsInits :: "ShapedType list"
  transpose_v :: bool

text \<open>\<open>checkShapeRank\<close> (lines 1244-1254).\<close>

definition checkShapeRank :: "string \<Rightarrow> ShapedType \<Rightarrow> nat \<Rightarrow> LogicalResult" where
  "checkShapeRank operandName shapedType rankToCompareWith =
     (if getRank shapedType \<noteq> rankToCompareWith then
        Failure (''expected '' @ operandName @ '' to have another rank'')
      else Success)"

definition swapLastTwo :: "'a list \<Rightarrow> 'a list" where
  "swapLastTwo valueShape =
     (let lastIdx = length valueShape - 1
      in valueShape[lastIdx - 1 := valueShape ! lastIdx, lastIdx := valueShape ! (lastIdx - 1)])"

text \<open>The checks of the tiled form (lines 1347-1372).\<close>

definition AttentionOp_verifyTiled ::
  "ShapedType \<Rightarrow> ShapedType \<Rightarrow> ShapedType \<Rightarrow> ShapedType \<Rightarrow> LogicalResult" where
  "AttentionOp_verifyTiled queryType outputType maxType sumType =
     (if \<not> succeeded (checkShapeRank ''max'' maxType 1) then checkShapeRank ''max'' maxType 1
      else if \<not> succeeded (checkShapeRank ''sum'' sumType 1) then
        checkShapeRank ''sum'' sumType 1
      else if getElementType outputType \<noteq> getElementType maxType \<or>
              getElementType maxType \<noteq> getElementType sumType then
        Failure ''element types of tiled output, max and sum should be same''
      else if \<not> verifyCompatibleShape (getShape maxType) (getShape sumType) then
        Failure ''incompatible sum shape''
      else if getShape maxType ! 0 \<noteq> getShape queryType ! 0 then
        Failure ''Query and max dimension-0 mismatch''
      else Success)"

text \<open>The checks on the four shaped types once the arities and the scale are settled
  (lines 1302-1374).\<close>

definition AttentionOp_verifyShapes ::
  "AttentionOp \<Rightarrow> ShapedType \<Rightarrow> ShapedType \<Rightarrow> ShapedType \<Rightarrow> Type \<Rightarrow> LogicalResult" where
  "AttentionOp_verifyShapes op queryType keyType valueType scaleElementType =
     (let isTiled = (length (attention_dpsInits op) = 3);
          rankToCompareWith = (if isTiled then 2 else 3);
          outputType = attention_dpsInits op ! 0
      in if \<not> succeeded (checkShapeRank ''query'' queryType rankToCompareWith) then
           checkShapeRank ''query'' queryType rankToCompareWith
         else if \<not> succeeded (checkShapeRank ''key'' keyType rankToCompareWith) then
           checkShapeRank ''key'' keyType rankToCompareWith
         else if \<not> succeeded (checkShapeRank ''value'' valueType rankToCompareWith) then
           checkShapeRank ''value'' valueType rankToCompareWith
         else if \<not> succeeded (checkShapeRank ''output'' outputType rankToCompareWith) then
           checkShapeRank ''output'' outputType rankToCompareWith
         else
           (let queryShape = getShape queryType; keyShape = getShape keyType;
                outputShape = getShape outputType;
                valueShape = (if transpose_v op then swapLastTwo (getShape valueType)
                              else getShape valueType)
            in if \<not> verifyCompatibleShape keyShape valueShape then
                 Failure ''incompatible value shape''
               else if \<not> verifyCompatibleShape queryShape outputShape then
                 Failure ''incompatible output shape''
               else if getElementType queryType \<noteq> getElementType keyType \<or>
                       getElementType queryType \<noteq> getElementType valueType \<or>
                       getElementType queryType \<noteq> scaleElementType then
                 Failure (''element types of (Q)uery, (K)ey and (V)alue and scale should be '' @
                          ''same'')
               else if \<not> isTiled \<and> getElementType queryType \<noteq> getElementType outputType then
                 Failure ''expected another element type for Output''
               else if \<not> isTiled \<and> keyShape ! 2 \<noteq> queryShape ! 2 then
                 Failure ''query and key head dimension mismatch''
               else if isTiled then
                 AttentionOp_verifyTiled queryType outputType (attention_dpsInits op ! 1)
                   (attention_dpsInits op ! 2)
               else Success))"

text \<open>\<open>AttentionOp::verify\<close> (lines 1256-1375).\<close>

definition AttentionOp_verify :: "AttentionOp \<Rightarrow> LogicalResult" where
  "AttentionOp_verify op =
     (let numInputs = length (attention_dpsInputs op);
          numOutputs = length (attention_dpsInits op)
      in if numInputs \<noteq> 4 then
           Failure ''expected 4 input operands: Query, Key, Value and Scale''
         else if numOutputs \<noteq> 1 \<and> numOutputs \<noteq> 3 then
           Failure ''expected 1 or 3 output operands: Output, [Max and Sum]''
         else if \<not> list_all isa_ShapedType (butlast (attention_dpsInputs op)) then
           Failure ''expected Query, Key, Value inputs to be of shaped type''
         else
           (case (dyn_cast_ShapedType (attention_dpsInputs op ! 0),
                  dyn_cast_ShapedType (attention_dpsInputs op ! 1),
                  dyn_cast_ShapedType (attention_dpsInputs op ! 2)) of
              (Some queryType, Some keyType, Some valueType) \<Rightarrow>
                if \<not> isFloatType (attention_dpsInputs op ! 3) then
                  Failure ''expected scale to be of floating point type''
                else AttentionOp_verifyShapes op queryType keyType valueType
                       (attention_dpsInputs op ! 3)
            | _ \<Rightarrow> Failure ''expected Query, Key, Value inputs to be of shaped type''))"

section \<open>Auxiliary definitions for the statements\<close>

text \<open>The unpacked and the packed type of an operation, as
  \<open>commonVerifierPackAndUnPackOp\<close> selects them (lines 659-661 and 688-690).\<close>

definition unpackedTypeOf :: "OpTy \<Rightarrow> PackOrUnPackOp \<Rightarrow> ShapedType" where
  "unpackedTypeOf opTy op = (if opTy = PackOp then pack_inputType op else pack_outputType op)"

definition packedTypeOf :: "OpTy \<Rightarrow> PackOrUnPackOp \<Rightarrow> ShapedType" where
  "packedTypeOf opTy op = (if opTy = PackOp then pack_outputType op else pack_inputType op)"

text \<open>A pack of a rank-1 \<open>f32\<close> tensor along dimension 0 with the static tile size 3,
  no outer permutation, into a tensor of the given packed shape.\<close>

definition packExample :: "int64 list \<Rightarrow> int64 list \<Rightarrow> Type option \<Rightarrow> PackOrUnPackOp" where
  "packExample unpackedShape packedShape padding =
     \<lparr>pack_inputType = \<lparr>getShape = unpackedShape, getElementType = Float32Type, isMemRef = False\<rparr>,
      pack_outputType = \<lparr>getShape = packedShape, getElementType = Float32Type, isMemRef = False\<rparr>,
      inner_dims_pos = [0], outer_dims_perm = [], static_inner_tiles = [3], inner_tiles = [],
      padding_value = padding\<rparr>"

text \<open>The scatter of the shape contract: indices of the given shape and of \<open>i32\<close>
  elements, updates of the given shape, a base of shape \<open>[8, 4]\<close>, the dimension map
  \<open>[0]\<close>, and a region on two \<open>f32\<close> arguments that yields an \<open>f32\<close>.\<close>

definition scatterExample :: "int64 list \<Rightarrow> int64 list \<Rightarrow> ScatterOp" where
  "scatterExample indicesShape updateShape =
     \<lparr>scatter_numInputs = 2, scatter_numOutputs = 1,
      indicesType = \<lparr>getShape = indicesShape, getElementType = IntegerType 32, isMemRef = False\<rparr>,
      updateType = \<lparr>getShape = updateShape, getElementType = Float32Type, isMemRef = False\<rparr>,
      originalType = \<lparr>getShape = [8, 4], getElementType = Float32Type, isMemRef = False\<rparr>,
      dimension_map = [0],
      scatter_bodyArguments = [Float32Type, Float32Type],
      scatter_yieldOperands = [Float32Type]\<rparr>"

text \<open>An FFT whose length is dynamic, whose only input is a tensor and which has one
  output.\<close>

definition fftExample :: FftOp where
  "fftExample =
     \<lparr>fftLength = kDynamic,
      fft_dpsInputs = [RankedTensorType [kDynamic] Float32Type],
      fft_numDpsInits = 1\<rparr>"

text \<open>A sort of two \<open>f32\<close> outputs of rank 2 whose shapes differ only where one of them
  is dynamic; the reference shape is the shape of the first.\<close>

definition sortExample :: SortOp where
  "sortExample =
     \<lparr>sort_numDpsInputs = 0,
      sort_outputs = [\<lparr>getShape = [4, kDynamic], getElementType = Float32Type, isMemRef = False\<rparr>,
                      \<lparr>getShape = [4, 8], getElementType = Float32Type, isMemRef = False\<rparr>],
      sort_blockArguments = [Float32Type, Float32Type, Float32Type, Float32Type],
      sort_dimension = 0, operandRank = 2, operandShape = [4, kDynamic],
      sort_yieldOperands = [IntegerType 1]\<rparr>"

text \<open>An attention without max and sum: key and value of shape \<open>[2, 8, 16]\<close>, query and
  output of the given shape, all of \<open>f32\<close>, an \<open>f32\<close> scale, no transposition.\<close>

definition attentionExample :: "int64 list \<Rightarrow> AttentionOp" where
  "attentionExample queryShape =
     \<lparr>attention_dpsInputs =
        [RankedTensorType queryShape Float32Type, RankedTensorType [2, 8, 16] Float32Type,
         RankedTensorType [2, 8, 16] Float32Type, Float32Type],
      attention_dpsInits =
        [\<lparr>getShape = queryShape, getElementType = Float32Type, isMemRef = False\<rparr>],
      transpose_v = False\<rparr>"

text \<open>A Winograd input transform in channel-last layout with kernel size 3, output tile
  size 4 and input tile size 6 on \<open>f32\<close> operands of the given shapes.\<close>

definition winogradExample :: "int64 list \<Rightarrow> int64 list \<Rightarrow> WinogradInputTransformOp" where
  "winogradExample inputShape outputShape =
     \<lparr>winograd_numDpsInputs = 1, winograd_numDpsInits = 1,
      winograd_inputType = \<lparr>getShape = inputShape, getElementType = Float32Type, isMemRef = False\<rparr>,
      winograd_outputType = \<lparr>getShape = outputShape, getElementType = Float32Type, isMemRef = False\<rparr>,
      output_tile_size = 4, kernel_size = 3, input_tile_size = 6, image_dimensions = [1, 2]\<rparr>"

text \<open>The extent that the loop of lines 1016-1028 stores for an image dimension.\<close>

definition imageExtent :: "WinogradInputTransformOp \<Rightarrow> int64 \<Rightarrow> int64 option" where
  "imageExtent op extent =
     (if isDynamic extent then Some extent
      else ceilOfFloatQuotient (extent - kernel_size op + 1) (output_tile_size op))"

text \<open>The extent that the exact ceiling gives for an image dimension.\<close>

definition exactImageExtent :: "WinogradInputTransformOp \<Rightarrow> int64 \<Rightarrow> int64" where
  "exactImageExtent op extent =
     (if isDynamic extent then extent
      else ceilDiv (extent - kernel_size op + 1) (output_tile_size op))"

section \<open>The relation between symbolic dimensions and static extents\<close>

text \<open>A symbolic dimension agrees with a static extent when the extent is dynamic or the
  dimension is the attribute of that extent.\<close>

definition staticAgree :: "OpFoldResult \<Rightarrow> int64 \<Rightarrow> bool" where
  "staticAgree ofr extent = (extent = kDynamic \<or> ofr = Attr extent)"

section \<open>Facts about the tile count\<close>

lemma div_pos_bounds:
  fixes a b :: int
  assumes "0 < b" "- m < a" "a < m"
  shows "- m < a div b \<and> a div b < m"
proof (cases "0 \<le> a")
  case True
  then have "0 \<le> a div b" using assms(1) by (simp add: pos_imp_zdiv_nonneg_iff)
  moreover have "a div b \<le> a div 1" using True assms(1) by (intro zdiv_mono2) simp_all
  ultimately show ?thesis using assms True by simp
next
  case False
  then have "a div b \<le> 0" using assms(1) by (intro div_nonpos_pos_le0) simp_all
  moreover have "a div 1 \<le> a div b" using False assms(1) by (intro zdiv_mono2_neg) simp_all
  ultimately show ?thesis using assms False by simp
qed

lemma div_bounds:
  fixes a b :: int
  assumes "b \<noteq> 0" "- m < a" "a < m"
  shows "- m < a div b \<and> a div b < m"
proof (cases "0 < b")
  case True
  then show ?thesis using assms div_pos_bounds by blast
next
  case False
  then have "0 < - b" using assms(1) by simp
  moreover have "- m < - a" "- a < m" using assms by simp_all
  ultimately have "- m < (- a) div (- b) \<and> (- a) div (- b) < m"
    using div_pos_bounds by blast
  then show ?thesis by simp
qed

lemma sint_kDynamic: "sint kDynamic = - (2 ^ 63)"
  by (simp add: kDynamic_def)

lemma sint_not_kDynamic:
  assumes "x \<noteq> kDynamic"
  shows "- (2 ^ 63) < sint (x :: int64)"
proof -
  have "sint x \<noteq> sint kDynamic" using assms signed_word_eqI by blast
  moreover have "- (2 ^ 63) \<le> sint x" using sint_ge [of x] by simp
  ultimately show ?thesis by (simp add: sint_kDynamic)
qed

lemma sint_ceilDiv:
  assumes "lhs \<noteq> kDynamic" "rhs \<noteq> 0"
  shows "sint (ceilDiv lhs rhs) = - ((- sint lhs) div sint rhs)"
proof -
  have lo: "- (2 ^ 63) < sint lhs" using assms(1) by (rule sint_not_kDynamic)
  have hi: "sint lhs < 2 ^ 63" using sint_lt [of lhs] by simp
  have nz: "sint rhs \<noteq> 0" using assms(2) by (metis sint_0 signed_word_eqI)
  have "- (2 ^ 63) < (- sint lhs) div sint rhs \<and> (- sint lhs) div sint rhs < 2 ^ 63"
    using nz lo hi by (intro div_bounds) simp_all
  then have "- (2 ^ 63) \<le> - ((- sint lhs) div sint rhs)"
    and "- ((- sint lhs) div sint rhs) < 2 ^ 63" by simp_all
  then have "sint (word_of_int (- ((- sint lhs) div sint rhs)) :: int64) = - ((- sint lhs) div sint rhs)"
    by (simp only: sint_sbintrunc' signed_take_bit_int_eq_self_iff) simp
  then show ?thesis by (simp only: ceilDiv_def)
qed

lemma ceilDiv_not_dynamic:
  assumes "lhs \<noteq> kDynamic" "rhs \<noteq> 0"
  shows "ceilDiv lhs rhs \<noteq> kDynamic"
proof
  assume "ceilDiv lhs rhs = kDynamic"
  then have "sint (ceilDiv lhs rhs) = - (2 ^ 63)" by (simp add: sint_kDynamic)
  then have eq: "(- sint lhs) div sint rhs = 2 ^ 63" using sint_ceilDiv [OF assms] by simp
  have lo: "- (2 ^ 63) < sint lhs" using assms(1) by (rule sint_not_kDynamic)
  have hi: "sint lhs < 2 ^ 63" using sint_lt [of lhs] by simp
  have nz: "sint rhs \<noteq> 0" using assms(2) by (metis sint_0 signed_word_eqI)
  have "(- sint lhs) div sint rhs < 2 ^ 63"
    using nz lo hi div_bounds [of "sint rhs" "2 ^ 63" "- sint lhs"] by simp
  then show False using eq by simp
qed

lemma sint_ceilDiv_ceiling:
  assumes "lhs \<noteq> kDynamic" "rhs \<noteq> 0"
  shows "sint (ceilDiv lhs rhs) = \<lceil>real_of_int (sint lhs) / real_of_int (sint rhs)\<rceil>"
  using sint_ceilDiv [OF assms] by (simp only: ceiling_divide_eq_div)


lemma tileCount_one_axis:
  assumes "d < length sourceShape"
  shows "getPackOpResultTypeShape sourceShape [tileSize] [int d] [] =
     (if isDynamic (sourceShape ! d) then Some (sourceShape @ [tileSize])
      else if isDynamic tileSize then Some (sourceShape[d := kDynamic] @ [tileSize])
      else if tileSize = 0 then None
      else Some (sourceShape[d := ceilDiv (sourceShape ! d) tileSize] @ [tileSize]))"
  using assms by (simp add: getPackOpResultTypeShape_def interchange_def enumerate_eq_zip)

text \<open>
  C2. With one tiled axis \<open>d\<close> the packed shape carries at \<open>d\<close> the tile count:
  dynamic when the extent or the tile size is dynamic, otherwise the ceiling of the
  extent divided by the tile size (a static zero tile size has no quotient: the
  computation stops at the assertion of \<open>ceilDiv\<close>); the tile size is appended.
  Extent 10 with tile size 3 gives 4, extent 9 with tile size 3 gives 3.
\<close>

theorem tile_count_is_ceiling:
  assumes "d < length sourceShape"
  shows "getPackOpResultTypeShape sourceShape [tileSize] [int d] [] =
           (if isDynamic (sourceShape ! d) \<or> isDynamic tileSize then
              Some (sourceShape[d := kDynamic] @ [tileSize])
            else if tileSize = 0 then None
            else Some (sourceShape[d := ceilDiv (sourceShape ! d) tileSize] @ [tileSize])) \<and>
         (\<not> isDynamic (sourceShape ! d) \<and> \<not> isDynamic tileSize \<and> tileSize \<noteq> 0 \<longrightarrow>
            \<not> isDynamic (ceilDiv (sourceShape ! d) tileSize) \<and>
            sint (ceilDiv (sourceShape ! d) tileSize) =
              \<lceil>real_of_int (sint (sourceShape ! d)) / real_of_int (sint tileSize)\<rceil>) \<and>
         getPackOpResultTypeShape [10] [3] [0] [] = Some [4, 3] \<and>
         getPackOpResultTypeShape [9] [3] [0] [] = Some [3, 3]"
proof (intro conjI impI)
  show "getPackOpResultTypeShape sourceShape [tileSize] [int d] [] =
           (if isDynamic (sourceShape ! d) \<or> isDynamic tileSize then
              Some (sourceShape[d := kDynamic] @ [tileSize])
            else if tileSize = 0 then None
            else Some (sourceShape[d := ceilDiv (sourceShape ! d) tileSize] @ [tileSize]))"
  proof (cases "isDynamic (sourceShape ! d)")
    case True
    then have "sourceShape[d := kDynamic] = sourceShape"
      by (metis isDynamic_def list_update_id)
    then show ?thesis using True tileCount_one_axis [OF assms, of tileSize] by simp
  next
    case False
    then show ?thesis using tileCount_one_axis [OF assms, of tileSize] by simp
  qed
next
  assume "\<not> isDynamic (sourceShape ! d) \<and> \<not> isDynamic tileSize \<and> tileSize \<noteq> 0"
  then have st: "sourceShape ! d \<noteq> kDynamic" "tileSize \<noteq> 0" by (simp_all add: isDynamic_def)
  show "\<not> isDynamic (ceilDiv (sourceShape ! d) tileSize)"
    using ceilDiv_not_dynamic [OF st] by (simp add: isDynamic_def)
  show "sint (ceilDiv (sourceShape ! d) tileSize) =
          \<lceil>real_of_int (sint (sourceShape ! d)) / real_of_int (sint tileSize)\<rceil>"
    using st by (rule sint_ceilDiv_ceiling)
next
  show "getPackOpResultTypeShape [10] [3] [0] [] = Some [4, 3]"
    using tileCount_one_axis [of 0 "[10]" 3]
    by (simp add: isDynamic_def kDynamic_def ceilDiv_def)
next
  show "getPackOpResultTypeShape [9] [3] [0] [] = Some [3, 3]"
    using tileCount_one_axis [of 0 "[9]" 3]
    by (simp add: isDynamic_def kDynamic_def ceilDiv_def)
qed

theorem tile_count_is_ceiling_witness:
  "(0::nat) < length [10 :: int64] \<and>
   getPackOpResultTypeShape [10] [3] [int 0] [] = Some [4, 3] \<and>
   \<not> isDynamic (ceilDiv 10 3) \<and>
   sint (ceilDiv 10 3) = \<lceil>real_of_int (sint (10 :: int64)) / real_of_int (sint (3 :: int64))\<rceil>"
  using tile_count_is_ceiling [of 0 "[10]" 3]
  by (simp add: isDynamic_def kDynamic_def ceilDiv_def)

section \<open>Shape reification agrees with the packed type\<close>


lemma staticAgree_asExtent: "staticAgree ofr (asExtentWithAnyValueAsDynamic ofr)"
  by (cases ofr) (simp_all add: staticAgree_def)

lemma staticAgree_asShape: "list_all2 staticAgree ofrs (asShapeWithAnyValueAsDynamic ofrs)"
  by (simp add: asShapeWithAnyValueAsDynamic_def list_all2_conv_all_nth staticAgree_asExtent)

lemma interchangeLoop_rel:
  assumes "list_all2 R es1 es2" "list_all2 R v1 v2"
  shows "rel_option (list_all2 R) (interchangeLoop es1 ps v1) (interchangeLoop es2 ps v2)"
  using assms(2)
proof (induction ps arbitrary: v1 v2)
  case Nil
  then show ?case by simp
next
  case (Cons p ps)
  obtain idx val where p: "p = (idx, val)" by (cases p)
  have len: "length v1 = length v2" "length es1 = length es2"
    using Cons.prems assms(1) by (simp_all add: list_all2_lengthD)
  show ?case
  proof (cases "idx \<ge> length v1 \<or> val < 0 \<or> val \<ge> int (length es1)")
    case True
    then show ?thesis using len by (simp add: p)
  next
    case False
    then have "nat val < length es1" by auto
    then have "R (es1 ! nat val) (es2 ! nat val)"
      using assms(1) by (simp add: list_all2_conv_all_nth)
    then have "list_all2 R (v1[idx := es1 ! nat val]) (v2[idx := es2 ! nat val])"
      using Cons.prems by (simp add: list_all2_update_cong)
    then show ?thesis using False len Cons.IH by (simp add: p)
  qed
qed

lemma interchange_rel:
  assumes "list_all2 R es1 es2"
  shows "rel_option (list_all2 R) (interchange es1 perm) (interchange es2 perm)"
  unfolding interchange_def using assms by (intro interchangeLoop_rel)

lemma interchange_Nil: "interchange es [] = Some es"
  by (simp add: interchange_def)

lemma loops_agree:
  assumes fold: "\<And>a b. a \<noteq> kDynamic \<Longrightarrow> b \<noteq> kDynamic \<Longrightarrow> b \<noteq> 0 \<Longrightarrow>
                   composedCeilDiv (Attr a) (Attr b) = Attr (ceilDiv a b)"
    and "list_all2 staticAgree dims shape"
    and "tileCountLoop (asShapeWithAnyValueAsDynamic tiles) ps shape = Some shape'"
    and "ceilDivLoop composedCeilDiv tiles ps dims = Some dims'"
  shows "list_all2 staticAgree dims' shape'"
  using assms(2-4)
proof (induction ps arbitrary: dims shape)
  case Nil
  then show ?case by simp
next
  case (Cons p ps)
  obtain idx tiledDim where p: "p = (idx, tiledDim)" by (cases p)
  have len: "length dims = length shape" using Cons.prems(1) by (simp add: list_all2_lengthD)
  have inr: "\<not> (tiledDim < 0 \<or> tiledDim \<ge> int (length shape))" and idx: "idx < length tiles"
    using Cons.prems(3) len by (auto simp: p split: if_splits)
  let ?d = "nat tiledDim"
  have d: "?d < length shape" using inr by auto
  let ?dims = "dims[?d := composedCeilDiv (dims ! ?d) (tiles ! idx)]"
  have next_dims: "ceilDivLoop composedCeilDiv tiles ps ?dims = Some dims'"
    using Cons.prems(3) inr idx len by (simp add: p)
  have tile: "asShapeWithAnyValueAsDynamic tiles ! idx = asExtentWithAnyValueAsDynamic (tiles ! idx)"
    using idx by (simp add: asShapeWithAnyValueAsDynamic_def)
  show ?case
  proof (cases "isDynamic (shape ! ?d)")
    case True
    then have "tileCountLoop (asShapeWithAnyValueAsDynamic tiles) ps shape = Some shape'"
      using Cons.prems(2) inr by (simp add: p)
    moreover have "list_all2 staticAgree ?dims shape"
      using Cons.prems(1) True d
      by (auto simp: list_all2_conv_all_nth nth_list_update staticAgree_def isDynamic_def)
    ultimately show ?thesis using Cons.IH next_dims by blast
  next
    case static: False
    show ?thesis
    proof (cases "isDynamic (asShapeWithAnyValueAsDynamic tiles ! idx)")
      case True
      then have "tileCountLoop (asShapeWithAnyValueAsDynamic tiles) ps (shape[?d := kDynamic]) = Some shape'"
        using Cons.prems(2) inr static idx by (simp add: p asShapeWithAnyValueAsDynamic_def)
      moreover have "list_all2 staticAgree ?dims (shape[?d := kDynamic])"
        using Cons.prems(1) d
        by (auto simp: list_all2_conv_all_nth nth_list_update staticAgree_def)
      ultimately show ?thesis using Cons.IH next_dims by blast
    next
      case False
      let ?t = "asShapeWithAnyValueAsDynamic tiles ! idx"
      have nz: "?t \<noteq> 0" and
        step: "tileCountLoop (asShapeWithAnyValueAsDynamic tiles) ps
                 (shape[?d := ceilDiv (shape ! ?d) ?t]) = Some shape'"
        using Cons.prems(2) inr static idx False
        by (auto simp: p asShapeWithAnyValueAsDynamic_def split: if_splits)
      have tileAttr: "tiles ! idx = Attr ?t"
        using False tile by (cases "tiles ! idx") (simp_all add: isDynamic_def)
      have dimAttr: "dims ! ?d = Attr (shape ! ?d)"
        using Cons.prems(1) static d by (auto simp: list_all2_conv_all_nth staticAgree_def isDynamic_def)
      have "composedCeilDiv (dims ! ?d) (tiles ! idx) = Attr (ceilDiv (shape ! ?d) ?t)"
        using fold [of "shape ! ?d" ?t] static False nz tileAttr dimAttr
        by (simp add: isDynamic_def)
      then have "list_all2 staticAgree ?dims (shape[?d := ceilDiv (shape ! ?d) ?t])"
        using Cons.prems(1) d
        by (auto simp: list_all2_conv_all_nth nth_list_update staticAgree_def)
      then show ?thesis using Cons.IH next_dims step by blast
    qed
  qed
qed

lemma fixUp_agree:
  assumes "list_all2 staticAgree dims shape"
  shows "\<exists>fixed. fixUpResultDims dims shape = Some fixed \<and>
           asShapeWithAnyValueAsDynamic fixed = shape \<and>
           length fixed = length shape \<and>
           (\<forall>i<length fixed. isValue (fixed ! i) = isDynamic (shape ! i))"
proof -
  have len: "length dims = length shape" using assms by (simp add: list_all2_lengthD)
  let ?f = "map (\<lambda>(resultDim, extent).
                   if \<not> isDynamic extent then resultDim
                   else Val (getValueOrCreateConstantIndexOp resultDim)) (zip dims shape)"
  have "fixUpResultDims dims shape = Some ?f" using len by (simp add: fixUpResultDims_def)
  moreover have "asShapeWithAnyValueAsDynamic ?f = shape"
    using assms len
    by (intro nth_equalityI)
       (auto simp: asShapeWithAnyValueAsDynamic_def list_all2_conv_all_nth staticAgree_def isDynamic_def)
  moreover have "\<forall>i<length ?f. isValue (?f ! i) = isDynamic (shape ! i)"
    using assms len by (auto simp: list_all2_conv_all_nth staticAgree_def isDynamic_def)
  ultimately show ?thesis using len by simp
qed

lemma interchangeLoop_total:
  assumes "\<forall>(idx, val) \<in> set ps. idx < length vec \<and> 0 \<le> val \<and> val < int (length elements)"
  shows "\<exists>res. interchangeLoop elements ps vec = Some res \<and> length res = length vec"
  using assms
proof (induction ps arbitrary: vec)
  case Nil
  then show ?case by simp
next
  case (Cons p ps)
  obtain idx val where p: "p = (idx, val)" by (cases p)
  have ok: "idx < length vec" "0 \<le> val" "val < int (length elements)"
    using Cons.prems by (simp_all add: p)
  have "\<forall>(i, v) \<in> set ps. i < length (vec[idx := elements ! nat val]) \<and> 0 \<le> v \<and> v < int (length elements)"
    using Cons.prems by simp
  from Cons.IH [OF this] show ?case using ok by (simp add: p)
qed

lemma interchange_total:
  assumes "length perm \<le> length elements"
    and "list_all (\<lambda>p. 0 \<le> p \<and> p < int (length elements)) perm"
  shows "\<exists>res. interchange elements perm = Some res \<and> length res = length elements"
  unfolding interchange_def
  using assms
  by (intro interchangeLoop_total) (auto simp: in_set_enumerate_eq list_all_iff)

lemma ceilDivLoop_total:
  assumes "\<forall>(idx, tiledDim) \<in> set ps. idx < length tiles \<and> 0 \<le> tiledDim \<and> tiledDim < int (length dims)"
  shows "\<exists>res. ceilDivLoop f tiles ps dims = Some res \<and> length res = length dims"
  using assms
proof (induction ps arbitrary: dims)
  case Nil
  then show ?case by simp
next
  case (Cons p ps)
  obtain idx d where p: "p = (idx, d)" by (cases p)
  have ok: "idx < length tiles" "0 \<le> d" "d < int (length dims)"
    using Cons.prems by (simp_all add: p)
  have "\<forall>(i, v) \<in> set ps. i < length tiles \<and> 0 \<le> v \<and>
           v < int (length (dims[nat d := f (dims ! nat d) (tiles ! idx)]))"
    using Cons.prems by simp
  from Cons.IH [OF this] show ?case using ok by (simp add: p)
qed

lemma tileCountLoop_total:
  assumes "\<forall>(idx, tiledDim) \<in> set ps. idx < length tiles \<and> 0 \<le> tiledDim \<and> tiledDim < int (length shape)"
    and "0 \<notin> set tiles"
  shows "\<exists>res. tileCountLoop tiles ps shape = Some res \<and> length res = length shape"
  using assms(1)
proof (induction ps arbitrary: shape)
  case Nil
  then show ?case by simp
next
  case (Cons p ps)
  obtain idx d where p: "p = (idx, d)" by (cases p)
  have ok: "idx < length tiles" "0 \<le> d" "d < int (length shape)"
    using Cons.prems by (simp_all add: p)
  then have nz: "tiles ! idx \<noteq> 0" using assms(2) by (metis nth_mem)
  have rest: "\<forall>(i, v) \<in> set ps. i < length tiles \<and> 0 \<le> v \<and> v < int (length (shape[nat d := x]))" for x
    using Cons.prems by simp
  show ?case
    using Cons.IH [OF rest] Cons.IH [of shape] Cons.prems ok nz by (auto simp: p)
qed

lemma getPackOpResultTypeShape_total:
  assumes "length innerDimsPos \<le> length innerTileSizes"
    and "list_all (\<lambda>d. 0 \<le> d \<and> d < int (length sourceShape)) innerDimsPos"
    and "length outerDimsPerm \<le> length sourceShape"
    and "list_all (\<lambda>p. 0 \<le> p \<and> p < int (length sourceShape)) outerDimsPerm"
    and "0 \<notin> set innerTileSizes"
  shows "\<exists>res. getPackOpResultTypeShape sourceShape innerTileSizes innerDimsPos outerDimsPerm = Some res
           \<and> length res = length sourceShape + length innerTileSizes"
proof -
  have "\<forall>(idx, tiledDim) \<in> set (enumerate 0 innerDimsPos).
          idx < length innerTileSizes \<and> 0 \<le> tiledDim \<and> tiledDim < int (length sourceShape)"
    using assms(1,2) by (auto simp: in_set_enumerate_eq list_all_iff)
  from tileCountLoop_total [OF this assms(5)]
  obtain tiled where tiled: "tileCountLoop innerTileSizes (enumerate 0 innerDimsPos) sourceShape = Some tiled"
    "length tiled = length sourceShape" by blast
  obtain permuted where "interchange tiled outerDimsPerm = Some permuted" "length permuted = length tiled"
    using interchange_total [of outerDimsPerm tiled] assms(3,4) tiled(2) by auto
  then show ?thesis using tiled by (simp add: getPackOpResultTypeShape_def)
qed


text \<open>
  C1. Whenever \<open>PackOp::getResultShape\<close> returns, \<open>PackOp::getPackedType\<close> returns on
  the static view of the same source dimensions and tile sizes, and the two agree on
  every axis: read as a static shape, the reified dimensions are the shape of the
  packed type, and a reified dimension is an SSA value exactly where the packed type is
  dynamic. On well-formed arguments (as many tile sizes as positions, positions and
  permutation entries within the rank, no static tile size 0) \<open>getResultShape\<close> does
  return. The one fact used of MLIR's \<open>makeComposedFoldedAffineApply\<close> is that it
  folds the ceiling division of two static attributes, the divisor not zero.
\<close>

theorem getResultShape_agrees_with_getPackedType:
  assumes fold: "\<And>a b. a \<noteq> kDynamic \<Longrightarrow> b \<noteq> kDynamic \<Longrightarrow> b \<noteq> 0 \<Longrightarrow>
                   composedCeilDiv (Attr a) (Attr b) = Attr (ceilDiv a b)"
  shows "(\<forall>resultDims.
            getResultShape composedCeilDiv sourceDims innerTileSizes innerDimsPos outerDimsPerm
              = Some resultDims \<longrightarrow>
            (\<exists>packedType.
               getPackedType \<lparr>getShape = asShapeWithAnyValueAsDynamic sourceDims,
                              getElementType = elementType, isMemRef = memRef\<rparr>
                 (asShapeWithAnyValueAsDynamic innerTileSizes) innerDimsPos outerDimsPerm
                 = Some packedType \<and>
               asShapeWithAnyValueAsDynamic resultDims = getShape packedType \<and>
               (\<forall>i<length resultDims.
                  isValue (resultDims ! i) = isDynamic (getShape packedType ! i)))) \<and>
         (length innerTileSizes = length innerDimsPos \<and>
          list_all (\<lambda>d. 0 \<le> d \<and> d < int (length sourceDims)) innerDimsPos \<and>
          length outerDimsPerm \<le> length sourceDims \<and>
          list_all (\<lambda>p. 0 \<le> p \<and> p < int (length sourceDims)) outerDimsPerm \<and>
          Attr 0 \<notin> set innerTileSizes \<longrightarrow>
          getResultShape composedCeilDiv sourceDims innerTileSizes innerDimsPos outerDimsPerm
            \<noteq> None)"
proof (intro conjI allI impI)
  fix resultDims
  assume res: "getResultShape composedCeilDiv sourceDims innerTileSizes innerDimsPos outerDimsPerm
                 = Some resultDims"
  let ?src = "asShapeWithAnyValueAsDynamic sourceDims"
  let ?tiles = "asShapeWithAnyValueAsDynamic innerTileSizes"
  from res obtain tiledDims permuted resultTypeShape where
    loop: "ceilDivLoop composedCeilDiv innerTileSizes (enumerate 0 innerDimsPos) sourceDims = Some tiledDims"
    and perm: "(if outerDimsPerm \<noteq> [] then interchange tiledDims outerDimsPerm else Some tiledDims) = Some permuted"
    and shape: "getPackOpResultTypeShape ?src ?tiles innerDimsPos outerDimsPerm = Some resultTypeShape"
    and fixed: "fixUpResultDims (permuted @ innerTileSizes) resultTypeShape = Some resultDims"
    by (auto simp: getResultShape_def split: option.splits)
  from shape obtain tiledShape permutedShape where
    sloop: "tileCountLoop ?tiles (enumerate 0 innerDimsPos) ?src = Some tiledShape"
    and sperm: "interchange tiledShape outerDimsPerm = Some permutedShape"
    and rts: "resultTypeShape = permutedShape @ ?tiles"
    by (auto simp: getPackOpResultTypeShape_def split: option.splits)
  have a1: "list_all2 staticAgree tiledDims tiledShape"
    using loops_agree [OF fold staticAgree_asShape sloop loop] by simp
  have perm': "interchange tiledDims outerDimsPerm = Some permuted"
    using perm by (cases "outerDimsPerm = []") (simp_all add: interchange_Nil)
  have a2: "list_all2 staticAgree permuted permutedShape"
    using interchange_rel [OF a1, of outerDimsPerm] perm' sperm by simp
  have a3: "list_all2 staticAgree (permuted @ innerTileSizes) resultTypeShape"
    unfolding rts using a2 staticAgree_asShape by (rule list_all2_appendI)
  from fixUp_agree [OF a3] fixed
  have "asShapeWithAnyValueAsDynamic resultDims = resultTypeShape"
    and "\<forall>i<length resultDims. isValue (resultDims ! i) = isDynamic (resultTypeShape ! i)"
    by auto
  then show "\<exists>packedType.
               getPackedType \<lparr>getShape = ?src, getElementType = elementType, isMemRef = memRef\<rparr>
                 ?tiles innerDimsPos outerDimsPerm = Some packedType \<and>
               asShapeWithAnyValueAsDynamic resultDims = getShape packedType \<and>
               (\<forall>i<length resultDims.
                  isValue (resultDims ! i) = isDynamic (getShape packedType ! i))"
    using shape by (simp add: getPackedType_def)
next
  assume wf: "length innerTileSizes = length innerDimsPos \<and>
          list_all (\<lambda>d. 0 \<le> d \<and> d < int (length sourceDims)) innerDimsPos \<and>
          length outerDimsPerm \<le> length sourceDims \<and>
          list_all (\<lambda>p. 0 \<le> p \<and> p < int (length sourceDims)) outerDimsPerm \<and>
          Attr 0 \<notin> set innerTileSizes"
  let ?src = "asShapeWithAnyValueAsDynamic sourceDims"
  let ?tiles = "asShapeWithAnyValueAsDynamic innerTileSizes"
  have "\<forall>(idx, tiledDim) \<in> set (enumerate 0 innerDimsPos).
          idx < length innerTileSizes \<and> 0 \<le> tiledDim \<and> tiledDim < int (length sourceDims)"
    using wf by (auto simp: in_set_enumerate_eq list_all_iff)
  from ceilDivLoop_total [OF this]
  obtain tiledDims where loop:
    "ceilDivLoop composedCeilDiv innerTileSizes (enumerate 0 innerDimsPos) sourceDims = Some tiledDims"
    "length tiledDims = length sourceDims" by blast
  obtain permuted where perm: "interchange tiledDims outerDimsPerm = Some permuted"
    "length permuted = length tiledDims"
    using interchange_total [of outerDimsPerm tiledDims] wf loop(2) by auto
  have perm': "(if outerDimsPerm \<noteq> [] then interchange tiledDims outerDimsPerm else Some tiledDims) = Some permuted"
    using perm by (cases "outerDimsPerm = []") (simp_all add: interchange_Nil)
  have nz: "0 \<notin> set ?tiles"
  proof
    assume "0 \<in> set ?tiles"
    then obtain t where t: "t \<in> set innerTileSizes" "asExtentWithAnyValueAsDynamic t = 0"
      by (auto simp: asShapeWithAnyValueAsDynamic_def)
    have "t = Attr 0" using t(2) by (cases t) (simp_all add: kDynamic_def)
    then show False using wf t(1) by simp
  qed
  obtain shape where shape: "getPackOpResultTypeShape ?src ?tiles innerDimsPos outerDimsPerm = Some shape"
    "length shape = length ?src + length ?tiles"
    using getPackOpResultTypeShape_total [of innerDimsPos ?tiles ?src outerDimsPerm] wf nz
    by (auto simp: asShapeWithAnyValueAsDynamic_def)
  have "length shape = length (permuted @ innerTileSizes)"
    using shape(2) perm(2) loop(2) by (simp add: asShapeWithAnyValueAsDynamic_def)
  then have "fixUpResultDims (permuted @ innerTileSizes) shape \<noteq> None"
    by (simp add: fixUpResultDims_def)
  then show "getResultShape composedCeilDiv sourceDims innerTileSizes innerDimsPos outerDimsPerm \<noteq> None"
    using loop(1) perm' shape(1) by (simp add: getResultShape_def)
qed


theorem getResultShape_agrees_with_getPackedType_witness:
  "getResultShape foldedCeilDiv [Attr 10, Val (OtherValue 1), Attr 7] [Attr 3, Val (OtherValue 2)] [0, 2] [1, 0]
     = Some [Val (OtherValue 1), Attr 4, Val (OtherValue 0), Attr 3, Val (OtherValue 2)] \<and>
   getPackedType \<lparr>getShape = [10, kDynamic, 7], getElementType = Float32Type, isMemRef = False\<rparr>
     [3, kDynamic] [0, 2] [1, 0]
     = Some \<lparr>getShape = [kDynamic, 4, kDynamic, 3, kDynamic], getElementType = Float32Type, isMemRef = False\<rparr>"
  using getResultShape_agrees_with_getPackedType [of foldedCeilDiv
     "[Attr 10, Val (OtherValue 1), Attr 7]" "[Attr 3, Val (OtherValue 2)]" "[0, 2]" "[1, 0]" Float32Type False]
  by (simp add: getResultShape_def getPackedType_def getPackOpResultTypeShape_def interchange_def
      enumerate_eq_zip asShapeWithAnyValueAsDynamic_def fixUpResultDims_def isDynamic_def kDynamic_def ceilDiv_def)

section \<open>The common verifier of Pack and UnPack\<close>

lemma dispatch_snd: "snd (dispatchIndexOpFoldResults ofrs) = asShapeWithAnyValueAsDynamic ofrs"
proof (induction ofrs)
  case Nil
  then show ?case by (simp add: asShapeWithAnyValueAsDynamic_def)
next
  case (Cons a ofrs)
  then show ?case
    by (cases a; cases "dispatchIndexOpFoldResults ofrs")
       (simp_all add: asShapeWithAnyValueAsDynamic_def)
qed

lemma getStaticTiles_Some:
  "getMixedTiles op = Some tiles \<Longrightarrow>
   getStaticTiles op = Some (asShapeWithAnyValueAsDynamic tiles)"
  by (simp add: getStaticTiles_def dispatch_snd)

lemma hasZeros_static:
  assumes "\<not> hasZeros tiles"
  shows "0 \<notin> set (asShapeWithAnyValueAsDynamic tiles)"
proof
  assume "0 \<in> set (asShapeWithAnyValueAsDynamic tiles)"
  then obtain t where t: "t \<in> set tiles" "asExtentWithAnyValueAsDynamic t = 0"
    by (auto simp: asShapeWithAnyValueAsDynamic_def)
  have "t = Attr 0" using t(2) by (cases t) (simp_all add: kDynamic_def)
  then have "isConstantIntValue t 0" by (simp add: isConstantIntValue_def)
  then show False using assms t(1) by (auto simp: hasZeros_def list_ex_iff)
qed

lemma isInvalid_in_range:
  assumes "\<not> isInvalid dimsPos rank"
  shows "length dimsPos \<le> rank" "list_all (\<lambda>d. 0 \<le> d \<and> d < int rank) dimsPos" "distinct dimsPos"
proof -
  show "length dimsPos \<le> rank" using assms by (auto simp: isInvalid_def split: if_splits)
  show "list_all (\<lambda>d. 0 \<le> d \<and> d < int rank) dimsPos"
    using assms by (auto simp: isInvalid_def list_ex_iff list_all_iff split: if_splits)
  have "length dimsPos = length (remdups dimsPos)"
    using assms by (auto simp: isInvalid_def split: if_splits)
  then show "distinct dimsPos" by (metis distinct_remdups length_remdups_eq remdups_id_iff_distinct)
qed

lemma commonVerifier_checks:
  assumes "getMixedTiles op = Some mixedTiles"
  shows "commonVerifierPackAndUnPackOp opTy op =
     (if hasZeros mixedTiles then Some (Failure ''invalid tile factor'')
      else if isInvalid (inner_dims_pos op) (getRank (unpackedTypeOf opTy op)) then
        Some (Failure ''invalid inner_dims_pos vector'')
      else if isInvalid (outer_dims_perm op) (getRank (unpackedTypeOf opTy op)) then
        Some (Failure ''invalid outer_dims_perm vector'')
      else if length mixedTiles \<noteq> length (inner_dims_pos op) then
        Some (Failure ''blocking factors must equal the number of dimensions to block'')
      else if length mixedTiles > getRank (unpackedTypeOf opTy op) then
        Some (Failure ''blocking factors must be less or equal than the input rank'')
      else if getRank (unpackedTypeOf opTy op) + length mixedTiles
                \<noteq> getRank (packedTypeOf opTy op) then
        Some (Failure ''packed rank must equal unpacked rank + blocking factors'')
      else
        (case getPackOpResultTypeShape (getShape (unpackedTypeOf opTy op))
                (asShapeWithAnyValueAsDynamic mixedTiles) (inner_dims_pos op)
                (outer_dims_perm op) of
           None \<Rightarrow> None
         | Some expected \<Rightarrow>
             (case isSmallerThan expected (getShape (packedTypeOf opTy op)) of
                None \<Rightarrow> None
              | Some smaller \<Rightarrow>
                  if \<not> smaller then
                    Some (Failure (''the shape of output is not large enough to hold '' @
                                   ''the packed data''))
                  else if \<not> list_all tileMatchesShape
                              (zip (take_back (length mixedTiles)
                                      (getShape (packedTypeOf opTy op))) mixedTiles) then
                    Some (Failure (''mismatch in inner tile sizes specified and shaped '' @
                                   ''of tiled dimension in the packed type''))
                  else Some Success)))"
proof -
  have st: "getStaticTiles op = Some (asShapeWithAnyValueAsDynamic mixedTiles)"
    using assms by (rule getStaticTiles_Some)
  show ?thesis
  proof (cases "opTy = PackOp")
    case True
    then show ?thesis
      unfolding commonVerifierPackAndUnPackOp_def unpackedTypeOf_def packedTypeOf_def
        getPackedType_def Let_def
      by (simp add: assms st split: option.splits)
  next
    case False
    then show ?thesis
      unfolding commonVerifierPackAndUnPackOp_def unpackedTypeOf_def packedTypeOf_def
        getPackedType_def Let_def
      by (simp add: assms st split: option.splits)
  qed
qed

lemma commonVerifier_expected:
  assumes "\<not> hasZeros mixedTiles"
    and "\<not> isInvalid innerDimsPos (length sourceShape)"
    and "\<not> isInvalid outerDimsPerm (length sourceShape)"
    and "length mixedTiles = length innerDimsPos"
  shows "\<exists>res. getPackOpResultTypeShape sourceShape (asShapeWithAnyValueAsDynamic mixedTiles)
                  innerDimsPos outerDimsPerm = Some res \<and>
               length res = length sourceShape + length mixedTiles"
  using assms hasZeros_static [of mixedTiles]
    isInvalid_in_range [of innerDimsPos "length sourceShape"]
    isInvalid_in_range [of outerDimsPerm "length sourceShape"]
    getPackOpResultTypeShape_total [of innerDimsPos "asShapeWithAnyValueAsDynamic mixedTiles"
      sourceShape outerDimsPerm]
  by (simp add: asShapeWithAnyValueAsDynamic_def)

lemma commonVerifier_returns:
  assumes "getMixedTiles op = Some mixedTiles"
  shows "\<exists>r. commonVerifierPackAndUnPackOp opTy op = Some r"
proof (cases "hasZeros mixedTiles \<or>
              isInvalid (inner_dims_pos op) (getRank (unpackedTypeOf opTy op)) \<or>
              isInvalid (outer_dims_perm op) (getRank (unpackedTypeOf opTy op)) \<or>
              length mixedTiles \<noteq> length (inner_dims_pos op) \<or>
              length mixedTiles > getRank (unpackedTypeOf opTy op) \<or>
              getRank (unpackedTypeOf opTy op) + length mixedTiles
                \<noteq> getRank (packedTypeOf opTy op)")
  case True
  then show ?thesis unfolding commonVerifier_checks [OF assms] by auto
next
  case False
  then obtain res where res:
    "getPackOpResultTypeShape (getShape (unpackedTypeOf opTy op))
       (asShapeWithAnyValueAsDynamic mixedTiles) (inner_dims_pos op) (outer_dims_perm op)
       = Some res"
    "length res = length (getShape (unpackedTypeOf opTy op)) + length mixedTiles"
    using commonVerifier_expected [of mixedTiles "inner_dims_pos op"
        "getShape (unpackedTypeOf opTy op)" "outer_dims_perm op"]
    by (auto simp: getRank_def)
  then have "length res = length (getShape (packedTypeOf opTy op))"
    using False by (simp add: getRank_def)
  then obtain b where "isSmallerThan res (getShape (packedTypeOf opTy op)) = Some b"
    by (simp add: isSmallerThan_def)
  then show ?thesis
    unfolding commonVerifier_checks [OF assms] using False res(1) by simp
qed

lemma commonVerifier_Success:
  assumes "commonVerifierPackAndUnPackOp opTy op = Some Success"
  shows "\<exists>mixedTiles. getMixedTiles op = Some mixedTiles \<and> \<not> hasZeros mixedTiles \<and>
           \<not> isInvalid (inner_dims_pos op) (getRank (unpackedTypeOf opTy op)) \<and>
           length mixedTiles = length (inner_dims_pos op) \<and>
           getRank (packedTypeOf opTy op) = getRank (unpackedTypeOf opTy op) + length mixedTiles \<and>
           list_all tileMatchesShape
             (zip (take_back (length mixedTiles) (getShape (packedTypeOf opTy op))) mixedTiles)"
proof -
  from assms obtain mixedTiles where mt: "getMixedTiles op = Some mixedTiles"
    by (cases "getMixedTiles op") (simp_all add: commonVerifierPackAndUnPackOp_def Let_def)
  show ?thesis
    using assms unfolding commonVerifier_checks [OF mt]
    by (intro exI [of _ mixedTiles]) (simp add: mt split: if_splits option.splits)
qed

lemma smod_int_eq_0_iff_dvd: "(k :: int) smod l = 0 \<longleftrightarrow> l dvd k"
proof -
  have "k smod l = 0 \<longleftrightarrow> \<bar>k\<bar> mod \<bar>l\<bar> = 0"
    by (cases "k = 0") (simp_all add: signed_modulo_int_def sgn_if)
  also have "\<dots> \<longleftrightarrow> \<bar>l\<bar> dvd \<bar>k\<bar>" by (simp add: dvd_eq_mod_eq_0)
  also have "\<dots> \<longleftrightarrow> l dvd k" by simp
  finally show ?thesis .
qed

lemmas pack_eval = PackOp_verify_def commonVerifierPackAndUnPackOp_def getMixedTiles_def
  getStaticTiles_def getDimAndTileMapping_def areNotFullTiles_def hasZeros_def isInvalid_def
  getPackedType_def getPackOpResultTypeShape_def interchange_def isSmallerThan_def
  tileMatchesShape_def take_back_def checkPaddingValue_def isConstantIntValue_def
  getRank_def isDynamic_def kDynamic_def ceilDiv_def enumerate_eq_zip Let_def
  signed_modulo_int_def

lemma nth_take_back:
  assumes "n \<le> length xs" "i < n"
  shows "take_back n xs ! i = xs ! (length xs - n + i)"
  using assms by (simp add: take_back_def)

lemma tileMatchesShape_cases:
  assumes "tileMatchesShape (s, t)"
  shows "(\<not> isDynamic s \<longrightarrow> getConstantIntValue t = Some s) \<and>
         (getConstantIntValue t = None \<longrightarrow> isDynamic s)"
  using assms by (auto simp: tileMatchesShape_def split: option.splits if_splits)

lemma PackOp_verify_Success:
  "PackOp_verify op = Some Success \<Longrightarrow> commonVerifierPackAndUnPackOp PackOp op = Some Success"
  by (auto simp: PackOp_verify_def split: option.splits LogicalResult.splits)

lemma UnPackOp_verify_Success:
  "UnPackOp_verify op = Some Success \<Longrightarrow> commonVerifierPackAndUnPackOp UnPackOp op = Some Success"
  by (auto simp: UnPackOp_verify_def split: option.splits LogicalResult.splits)


text \<open>
  C4 (as amended). For every Pack or UnPack operation that passes verification, the
  packed type has one trailing axis per tile size, and on each of them: a static
  trailing axis equals the constant value of the tile size, and a tile size without a
  constant value has a dynamic trailing axis. Nothing is required of a dynamic trailing
  axis: the verifier accepts it for a constant tile size too.
\<close>

theorem packed_tile_axes_follow_tile_sizes:
  assumes "(opTy = PackOp \<and> PackOp_verify op = Some Success) \<or>
           (opTy = UnPackOp \<and> UnPackOp_verify op = Some Success)"
  shows "\<exists>mixedTiles.
           getMixedTiles op = Some mixedTiles \<and>
           getRank (packedTypeOf opTy op) = getRank (unpackedTypeOf opTy op) + length mixedTiles \<and>
           (\<forall>i<length mixedTiles.
              (\<not> isDynamic (getShape (packedTypeOf opTy op) ! (getRank (unpackedTypeOf opTy op) + i)) \<longrightarrow>
                 getConstantIntValue (mixedTiles ! i) =
                   Some (getShape (packedTypeOf opTy op) ! (getRank (unpackedTypeOf opTy op) + i))) \<and>
              (getConstantIntValue (mixedTiles ! i) = None \<longrightarrow>
                 isDynamic (getShape (packedTypeOf opTy op) ! (getRank (unpackedTypeOf opTy op) + i))))"
proof -
  have "commonVerifierPackAndUnPackOp opTy op = Some Success"
    using assms PackOp_verify_Success UnPackOp_verify_Success by blast
  from commonVerifier_Success [OF this] obtain mixedTiles where
    mt: "getMixedTiles op = Some mixedTiles"
    and rank: "getRank (packedTypeOf opTy op) = getRank (unpackedTypeOf opTy op) + length mixedTiles"
    and all: "list_all tileMatchesShape
             (zip (take_back (length mixedTiles) (getShape (packedTypeOf opTy op))) mixedTiles)"
    by blast
  let ?P = "getShape (packedTypeOf opTy op)"
  let ?r = "getRank (unpackedTypeOf opTy op)"
  have len: "length (take_back (length mixedTiles) ?P) = length mixedTiles"
    using rank by (simp add: take_back_def getRank_def)
  have "tileMatchesShape (?P ! (?r + i), mixedTiles ! i)" if "i < length mixedTiles" for i
  proof -
    have "tileMatchesShape (zip (take_back (length mixedTiles) ?P) mixedTiles ! i)"
      using all that len by (simp add: list_all_length)
    moreover have "take_back (length mixedTiles) ?P ! i = ?P ! (?r + i)"
      using that rank nth_take_back [of "length mixedTiles" ?P i] by (simp add: getRank_def)
    ultimately show ?thesis using that len by simp
  qed
  then have "\<forall>i<length mixedTiles.
              (\<not> isDynamic (?P ! (?r + i)) \<longrightarrow> getConstantIntValue (mixedTiles ! i) = Some (?P ! (?r + i))) \<and>
              (getConstantIntValue (mixedTiles ! i) = None \<longrightarrow> isDynamic (?P ! (?r + i)))"
    using tileMatchesShape_cases by blast
  then show ?thesis using mt rank by blast
qed

theorem packed_tile_axes_follow_tile_sizes_witness:
  "PackOp_verify (packExample [9] [3, 3] None) = Some Success \<and>
   getMixedTiles (packExample [9] [3, 3] None) = Some [Attr 3] \<and>
   getShape (packedTypeOf PackOp (packExample [9] [3, 3] None)) ! 1 = 3"
  using packed_tile_axes_follow_tile_sizes [of PackOp "packExample [9] [3, 3] None"]
  by (simp add: packExample_def pack_eval packedTypeOf_def unpackedTypeOf_def)

text \<open>
  C4 as stated fails: a pack with the static tile size 3 whose packed type has a dynamic
  trailing axis passes verification.
\<close>

theorem dynamic_tile_axis_counterexample:
  "PackOp_verify (packExample [9] [3, kDynamic] None) = Some Success \<and>
   getMixedTiles (packExample [9] [3, kDynamic] None) = Some [Attr 3] \<and>
   isDynamic (getShape (pack_outputType (packExample [9] [3, kDynamic] None)) ! 1)"
  by (simp add: packExample_def pack_eval)

section \<open>The full-tile guard of Pack\<close>

lemma fold_mapping_range:
  assumes "\<forall>i \<in> set is. i < length tiles"
    and "\<forall>k t. m0 k = Some t \<longrightarrow> t \<in> set tiles"
    and "fold (\<lambda>i m. m(dimsToBlock ! i \<mapsto> tiles ! i)) is m0 k = Some t"
  shows "t \<in> set tiles"
  using assms
proof (induction "is" arbitrary: m0)
  case Nil
  then show ?case by simp
next
  case (Cons i "is")
  have i: "i < length tiles" using Cons.prems(1) by simp
  have a: "\<forall>k t. (m0(dimsToBlock ! i \<mapsto> tiles ! i)) k = Some t \<longrightarrow> t \<in> set tiles"
  proof (intro allI impI)
    fix k t assume "(m0(dimsToBlock ! i \<mapsto> tiles ! i)) k = Some t"
    then show "t \<in> set tiles"
      using Cons.prems(2) i by (cases "k = dimsToBlock ! i") auto
  qed
  have b: "\<forall>j \<in> set is. j < length tiles" using Cons.prems(1) by simp
  have c: "fold (\<lambda>i m. m(dimsToBlock ! i \<mapsto> tiles ! i)) is (m0(dimsToBlock ! i \<mapsto> tiles ! i)) k = Some t"
    using Cons.prems(3) by (simp del: fun_upd_apply)
  show ?case by (rule Cons.IH [OF b a c])
qed

lemma getDimAndTileMapping_Some:
  assumes "getDimAndTileMapping op = Some m"
  shows "\<exists>tiles. getMixedTiles op = Some tiles \<and> length tiles = length (inner_dims_pos op) \<and>
           (\<forall>k t. m k = Some t \<longrightarrow> t \<in> set tiles)"
proof -
  from assms obtain tiles where mt: "getMixedTiles op = Some tiles"
    by (cases "getMixedTiles op") (simp_all add: getDimAndTileMapping_def)
  have len: "length tiles = length (inner_dims_pos op)"
    using assms mt by (cases "length tiles = length (inner_dims_pos op)")
      (simp_all add: getDimAndTileMapping_def Let_def)
  have m: "m = fold (\<lambda>i m. m(inner_dims_pos op ! i \<mapsto> tiles ! i))
                 [0..<length (inner_dims_pos op)] Map.empty"
    using assms mt len by (simp add: getDimAndTileMapping_def Let_def del: fun_upd_apply)
  have "t \<in> set tiles" if "m k = Some t" for k t
  proof (rule fold_mapping_range [of "[0..<length (inner_dims_pos op)]" tiles Map.empty
          "inner_dims_pos op" k t])
    show "\<forall>i\<in>set [0..<length (inner_dims_pos op)]. i < length tiles" using len by simp
    show "\<forall>k t. Map.empty k = Some t \<longrightarrow> t \<in> set tiles" by simp
    show "fold (\<lambda>i m. m(inner_dims_pos op ! i \<mapsto> tiles ! i))
            [0..<length (inner_dims_pos op)] Map.empty k = Some t"
      using that unfolding m .
  qed
  then show ?thesis using mt len by blast
qed

lemma areNotFullTilesLoop_True:
  assumes nz: "\<forall>k t. m k = Some t \<longrightarrow> getConstantIntValue t \<noteq> Some 0"
    and "d \<in> set dims" "\<not> isDynamic (shape ! d)" "m (int d) = Some tile"
    and "getConstantIntValue tile = Some c" "sint (shape ! d) smod sint c \<noteq> 0"
  shows "areNotFullTilesLoop shape m dims = Some True"
  using assms(2)
proof (induction dims)
  case Nil
  then show ?case by simp
next
  case (Cons dimIdx dims)
  show ?case
  proof (cases "dimIdx = d")
    case True
    have "c \<noteq> 0" using nz assms(4,5) by auto
    then show ?thesis using True assms(3-6) by simp
  next
    case False
    then have IH: "areNotFullTilesLoop shape m dims = Some True"
      using Cons by simp
    show ?thesis
    proof (cases "m (int dimIdx)")
      case None
      then show ?thesis using IH by simp
    next
      case (Some t)
      then have "getConstantIntValue t \<noteq> Some 0" using nz by blast
      then show ?thesis using IH Some
        by (cases "getConstantIntValue t") auto
    qed
  qed
qed

lemma hasZeros_const:
  assumes "\<not> hasZeros tiles" "t \<in> set tiles"
  shows "getConstantIntValue t \<noteq> Some 0"
  using assms by (auto simp: hasZeros_def list_ex_iff isConstantIntValue_def)


text \<open>
  C3. A pack without padding value is rejected whenever some dimension has a static
  extent and a constant tile size that does not divide it; with a padding value the
  divisibility is not looked at: the pack passes exactly when the common verifier passes
  and the padding value has the element type of the input. The pack of shape \<open>[10]\<close>
  with tile size 3 into \<open>[4, 3]\<close> is rejected without padding value and accepted with
  one.
\<close>

theorem pack_full_tile_guard:
  "(padding_value op = None \<and> getDimAndTileMapping op = Some dimAndTileMapping \<and>
    d < length (getShape (pack_inputType op)) \<and>
    \<not> isDynamic (getShape (pack_inputType op) ! d) \<and>
    dimAndTileMapping (int d) = Some tile \<and> getConstantIntValue tile = Some constantTile \<and>
    \<not> sint constantTile dvd sint (getShape (pack_inputType op) ! d) \<longrightarrow>
    (\<exists>msg. PackOp_verify op = Some (Failure msg))) \<and>
   (padding_value op = Some paddingType \<longrightarrow>
    PackOp_verify op =
      (case commonVerifierPackAndUnPackOp PackOp op of
         None \<Rightarrow> None
       | Some (Failure msg) \<Rightarrow> Some (Failure msg)
       | Some Success \<Rightarrow>
           Some (if paddingType = getElementType (pack_inputType op) then Success
                 else Failure ''expected padding_value has the element type of the input''))) \<and>
   PackOp_verify (packExample [10] [4, 3] None) =
     Some (Failure (''invalid tile factor provided. Only full tiles are '' @
                    ''supported when padding_value is not set'')) \<and>
   PackOp_verify (packExample [10] [4, 3] (Some Float32Type)) = Some Success"
proof (intro conjI impI)
  assume a: "padding_value op = None \<and> getDimAndTileMapping op = Some dimAndTileMapping \<and>
    d < length (getShape (pack_inputType op)) \<and>
    \<not> isDynamic (getShape (pack_inputType op) ! d) \<and>
    dimAndTileMapping (int d) = Some tile \<and> getConstantIntValue tile = Some constantTile \<and>
    \<not> sint constantTile dvd sint (getShape (pack_inputType op) ! d)"
  from getDimAndTileMapping_Some [of op dimAndTileMapping] a obtain tiles where
    mt: "getMixedTiles op = Some tiles"
    and ran: "\<forall>k t. dimAndTileMapping k = Some t \<longrightarrow> t \<in> set tiles" by blast
  from commonVerifier_returns [OF mt, of PackOp] obtain r where
    r: "commonVerifierPackAndUnPackOp PackOp op = Some r" by blast
  show "\<exists>msg. PackOp_verify op = Some (Failure msg)"
  proof (cases r)
    case (Failure msg)
    then show ?thesis using r by (simp add: PackOp_verify_def)
  next
    case Success
    from commonVerifier_Success [of PackOp op] r Success mt
    have "\<not> hasZeros tiles" by auto
    then have nz: "\<forall>k t. dimAndTileMapping k = Some t \<longrightarrow> getConstantIntValue t \<noteq> Some 0"
      using ran hasZeros_const by blast
    have "sint (getShape (pack_inputType op) ! d) smod sint constantTile \<noteq> 0"
      using a by (simp add: smod_int_eq_0_iff_dvd)
    then have "areNotFullTilesLoop (getShape (pack_inputType op)) dimAndTileMapping
            [0..<length (getShape (pack_inputType op))] = Some True"
      using a nz
        areNotFullTilesLoop_True [of dimAndTileMapping d "[0..<length (getShape (pack_inputType op))]"
          "getShape (pack_inputType op)" tile constantTile]
      by simp
    then show ?thesis using r Success a
      by (simp add: PackOp_verify_def areNotFullTiles_def)
  qed
next
  assume p: "padding_value op = Some paddingType"
  show "PackOp_verify op =
      (case commonVerifierPackAndUnPackOp PackOp op of
         None \<Rightarrow> None
       | Some (Failure msg) \<Rightarrow> Some (Failure msg)
       | Some Success \<Rightarrow>
           Some (if paddingType = getElementType (pack_inputType op) then Success
                 else Failure ''expected padding_value has the element type of the input''))"
  proof (cases "commonVerifierPackAndUnPackOp PackOp op")
    case None
    then show ?thesis by (simp add: PackOp_verify_def)
  next
    case (Some r)
    show ?thesis
    proof (cases r)
      case (Failure msg)
      then show ?thesis using Some by (simp add: PackOp_verify_def)
    next
      case Success
      from commonVerifier_Success [of PackOp op] Some Success obtain tiles where
        "getMixedTiles op = Some tiles" "length tiles = length (inner_dims_pos op)" by auto
      then have "getDimAndTileMapping op \<noteq> None"
        by (simp add: getDimAndTileMapping_def Let_def)
      then show ?thesis using Some Success p
        by (auto simp: PackOp_verify_def checkPaddingValue_def)
    qed
  qed
next
  show "PackOp_verify (packExample [10] [4, 3] None) =
     Some (Failure (''invalid tile factor provided. Only full tiles are '' @
                    ''supported when padding_value is not set''))"
    by (simp add: packExample_def pack_eval)
next
  show "PackOp_verify (packExample [10] [4, 3] (Some Float32Type)) = Some Success"
    by (simp add: packExample_def pack_eval)
qed

theorem pack_full_tile_guard_witness:
  "getDimAndTileMapping (packExample [10] [4, 3] None) = Some [0 \<mapsto> Attr 3] \<and>
   \<not> sint (3 :: int64) dvd sint (10 :: int64) \<and>
   (\<exists>msg. PackOp_verify (packExample [10] [4, 3] None) = Some (Failure msg)) \<and>
   padding_value (packExample [10] [4, 3] (Some Float32Type)) = Some Float32Type \<and>
   PackOp_verify (packExample [10] [4, 3] (Some Float32Type)) = Some Success"
  using pack_full_tile_guard [of "packExample [10] [4, 3] None" "[0 \<mapsto> Attr 3]" 0 "Attr 3" 3 Float32Type]
    pack_full_tile_guard [of "packExample [10] [4, 3] (Some Float32Type)" "[0 \<mapsto> Attr 3]" 0 "Attr 3" 3 Float32Type]
  by (simp add: packExample_def getDimAndTileMapping_def getMixedTiles_def isDynamic_def kDynamic_def
        del: fun_upd_apply)

section \<open>Scatter and FFT\<close>

lemma seq_Nil: "seq n n = []"
  by (simp add: seq_def)

lemma seq_1_2: "seq 1 2 = [1]"
  by (simp add: seq_def upto.simps)

lemma scatter_shapes:
  assumes "scatter_numInputs op = 2" "scatter_numOutputs op = 1"
    and "getShape (indicesType op) = [5, 1]"
    and "getElementType (indicesType op) = IntegerType 32"
    and "getShape (originalType op) = [8, 4]"
    and "dimension_map op = [0]"
    and "getShape (updateType op) = [5, u]"
  shows "ScatterOp_verify op =
     (if \<not> isDynamic 4 \<and> word_sless 4 u then Failure ''shape of update value exceeds original value''
      else ScatterOp_verifyRegion op)"
  unfolding ScatterOp_verify_def Let_def
  using assms
  by (simp add: getIndexDepth_def getRank_def isInteger_def isDynamic_def kDynamic_def isInvalid_def
        seq_Nil seq_1_2 updateExceedsOriginal_def)

text \<open>The dimension map must have as many entries as the indices type has columns:
  with indices of shape \<open>[5, 2]\<close> a dimension map of one entry is rejected at line 138,
  whatever the updates are.\<close>

lemma scatter_indices_5_2:
  assumes "scatter_numInputs op = 2" "scatter_numOutputs op = 1"
    and "getShape (indicesType op) = [5, 2]"
    and "getElementType (indicesType op) = IntegerType 32"
    and "length (dimension_map op) \<noteq> 2"
  shows "ScatterOp_verify op = Failure ''invalid number of dimension map entries ''"
  unfolding ScatterOp_verify_def Let_def
  using assms
  by (simp add: getIndexDepth_def getRank_def isInteger_def isDynamic_def kDynamic_def)

lemma scatter_dimension_map_length:
  assumes "succeeded (ScatterOp_verify op)"
  shows "getRank (indicesType op) = 2 \<and>
         int (length (dimension_map op)) = sint (getShape (indicesType op) ! 1)"
proof -
  have r: "getRank (indicesType op) = 2"
    using assms unfolding ScatterOp_verify_def by (simp split: if_splits)
  then have "length (getShape (indicesType op)) = 2" "getShape (indicesType op) \<noteq> []"
    by (auto simp: getRank_def)
  then have l: "last (getShape (indicesType op)) = getShape (indicesType op) ! 1"
    by (simp add: last_conv_nth)
  have "int (length (dimension_map op)) = sint (getIndexDepth op)"
    using assms unfolding ScatterOp_verify_def by (simp split: if_splits)
  then show ?thesis using r l by (simp add: getIndexDepth_def)
qed

text \<open>
  C5 as stated fails: with indices of shape \<open>[5, 2]\<close> the index depth is 2, not 1, and
  the operation with the dimension map \<open>[0]\<close>, a base of shape \<open>[8, 4]\<close> and updates
  of shape \<open>[5, 4]\<close> is rejected, because the dimension map has one entry.
\<close>

theorem scatter_indices_5_2_counterexample:
  "getShape (indicesType (scatterExample [5, 2] [5, 4])) = [5, 2] \<and>
   getElementType (indicesType (scatterExample [5, 2] [5, 4])) = IntegerType 32 \<and>
   getShape (updateType (scatterExample [5, 2] [5, 4])) = [5, 4] \<and>
   getShape (originalType (scatterExample [5, 2] [5, 4])) = [8, 4] \<and>
   dimension_map (scatterExample [5, 2] [5, 4]) = [0] \<and>
   ScatterOp_verify (scatterExample [5, 2] [5, 4]) =
     Failure ''invalid number of dimension map entries ''"
  by (simp add: scatterExample_def ScatterOp_verify_def getIndexDepth_def getRank_def
        isInteger_def isDynamic_def kDynamic_def)

text \<open>
  C5 (as amended). With indices of \<open>i32\<close> elements, a base of shape \<open>[8, 4]\<close> and the
  dimension map \<open>[0]\<close>: when the indices have the shape \<open>[5, 1]\<close>, so that the index
  depth is 1, a scatter with updates of shape \<open>[5, 4]\<close> passes all the shape checks
  (what remains is the check of its region, which the example passes), and with updates
  of shape \<open>[5, 6]\<close> it is rejected because the update extent 6 exceeds the base extent 4
  at the trailing axis; when the indices have the shape \<open>[5, 2]\<close> it is rejected for
  the length of its dimension map.
\<close>

theorem scatter_shape_contract:
  "(scatter_numInputs op = 2 \<and> scatter_numOutputs op = 1 \<and>
    getElementType (indicesType op) = IntegerType 32 \<and>
    getShape (originalType op) = [8, 4] \<and> dimension_map op = [0] \<longrightarrow>
    (getShape (indicesType op) = [5, 1] \<longrightarrow>
       (getShape (updateType op) = [5, 4] \<longrightarrow> ScatterOp_verify op = ScatterOp_verifyRegion op) \<and>
       (getShape (updateType op) = [5, 6] \<longrightarrow>
          ScatterOp_verify op = Failure ''shape of update value exceeds original value'')) \<and>
    (getShape (indicesType op) = [5, 2] \<longrightarrow>
       ScatterOp_verify op = Failure ''invalid number of dimension map entries '')) \<and>
   ScatterOp_verify (scatterExample [5, 1] [5, 4]) = Success \<and>
   ScatterOp_verify (scatterExample [5, 1] [5, 6]) =
     Failure ''shape of update value exceeds original value''"
proof (intro conjI impI)
  assume a: "scatter_numInputs op = 2 \<and> scatter_numOutputs op = 1 \<and>
    getElementType (indicesType op) = IntegerType 32 \<and>
    getShape (originalType op) = [8, 4] \<and> dimension_map op = [0]"
  { assume "getShape (indicesType op) = [5, 1]" "getShape (updateType op) = [5, 4]"
    then show "ScatterOp_verify op = ScatterOp_verifyRegion op"
      using a scatter_shapes [of op 4] by simp }
  { assume "getShape (indicesType op) = [5, 1]" "getShape (updateType op) = [5, 6]"
    then show "ScatterOp_verify op = Failure ''shape of update value exceeds original value''"
      using a scatter_shapes [of op 6] by (simp add: isDynamic_def kDynamic_def) }
  { assume "getShape (indicesType op) = [5, 2]"
    then show "ScatterOp_verify op = Failure ''invalid number of dimension map entries ''"
      using a scatter_indices_5_2 [of op] by simp }
next
  show "ScatterOp_verify (scatterExample [5, 1] [5, 4]) = Success"
    using scatter_shapes [of "scatterExample [5, 1] [5, 4]" 4]
    by (simp add: scatterExample_def ScatterOp_verifyRegion_def)
next
  show "ScatterOp_verify (scatterExample [5, 1] [5, 6]) =
     Failure ''shape of update value exceeds original value''"
    using scatter_shapes [of "scatterExample [5, 1] [5, 6]" 6]
    by (simp add: scatterExample_def isDynamic_def kDynamic_def)
qed

theorem scatter_shape_contract_witness:
  "scatter_numInputs (scatterExample [5, 1] [5, 4]) = 2 \<and>
   getShape (indicesType (scatterExample [5, 1] [5, 4])) = [5, 1] \<and>
   getShape (updateType (scatterExample [5, 1] [5, 4])) = [5, 4] \<and>
   ScatterOp_verify (scatterExample [5, 1] [5, 4]) =
     ScatterOp_verifyRegion (scatterExample [5, 1] [5, 4]) \<and>
   ScatterOp_verifyRegion (scatterExample [5, 1] [5, 4]) = Success \<and>
   getShape (updateType (scatterExample [5, 1] [5, 6])) = [5, 6] \<and>
   ScatterOp_verify (scatterExample [5, 1] [5, 6]) =
     Failure ''shape of update value exceeds original value'' \<and>
   getShape (indicesType (scatterExample [5, 2] [5, 6])) = [5, 2] \<and>
   ScatterOp_verify (scatterExample [5, 2] [5, 6]) =
     Failure ''invalid number of dimension map entries ''"
  using scatter_shape_contract [of "scatterExample [5, 1] [5, 4]"]
    scatter_shape_contract [of "scatterExample [5, 1] [5, 6]"]
    scatter_shape_contract [of "scatterExample [5, 2] [5, 6]"]
  by (simp add: scatterExample_def ScatterOp_verifyRegion_def)

text \<open>
  C7 fails on the code. An FFT of dynamic length passes verification although its first
  input is a tensor, not a scalar stage, and it has one output: \<open>FftOp::verify\<close> returns
  at line 326 before it looks at the operands.
\<close>

theorem fft_dynamic_length_skips_operand_checks:
  "FftOp_verify fftExample = Success \<and>
   \<not> isScalar (fft_dpsInputs fftExample ! 0) \<and> fft_numDpsInits fftExample \<noteq> 2"
  by (simp add: FftOp_verify_def fftExample_def isDynamic_def isScalar_def isa_ShapedType_def)

theorem fft_dynamic_length_skips_operand_checks_witness:
  "isDynamic (fftLength fftExample) \<and> FftOp_verify fftExample = Success"
  using fft_dynamic_length_skips_operand_checks
  by (simp add: fftExample_def isDynamic_def)

text \<open>For a static length the verifier does enforce the stage input and the two
  outputs.\<close>

lemma fft_static_length_checks:
  assumes "\<not> isDynamic (fftLength op)" "FftOp_verify op = Success"
  shows "fft_dpsInputs op \<noteq> [] \<and> isScalar (fft_dpsInputs op ! 0) \<and> fft_numDpsInits op = 2"
  using assms by (auto simp: FftOp_verify_def Let_def split: if_splits)

section \<open>Sort\<close>

lemma sortOperandLoop_Success:
  assumes "sortOperandLoop rank shape blockArguments operands = Success"
  shows "\<forall>(index, operandType) \<in> set operands.
           getRank operandType = rank \<and> getShape operandType = shape"
  using assms
proof (induction operands)
  case Nil
  then show ?case by simp
next
  case (Cons p operands)
  obtain index operandType where p: "p = (index, operandType)" by (cases p)
  have "getRank operandType = rank \<and> getShape operandType = shape \<and>
        sortOperandLoop rank shape blockArguments operands = Success"
    using Cons.prems unfolding p sortOperandLoop.simps
    by (metis LogicalResult.distinct(1))
  then show ?case using Cons.IH p by simp
qed

lemma SortOp_verify_Success:
  assumes "SortOp_verify op = Success"
  shows "sortOperandLoop (operandRank op) (operandShape op) (sort_blockArguments op)
           (enumerate 0 (sort_outputs op)) = Success"
proof (cases "sortOperandLoop (operandRank op) (operandShape op) (sort_blockArguments op)
           (enumerate 0 (sort_outputs op))")
  case Success
  then show ?thesis .
next
  case (Failure msg)
  then have "SortOp_verify op \<noteq> Success"
    by (simp add: SortOp_verify_def)
  then show ?thesis using assms by simp
qed

text \<open>The narrowing of line 269 decides the range check: the dimension \<open>2 ^ 32\<close>, far
  beyond the rank, has the low 32 bits 0 and passes it, and the dimension \<open>2 ^ 31\<close>
  is read as a negative \<open>int\<close> and rejected.\<close>

lemma sort_dimension_is_narrowed:
  "SortOp_verify (sortExample\<lparr>sort_outputs := [hd (sort_outputs sortExample)],
     sort_blockArguments := [Float32Type, Float32Type], sort_dimension := 2 ^ 32\<rparr>) = Success \<and>
   SortOp_verify (sortExample\<lparr>sort_outputs := [hd (sort_outputs sortExample)],
     sort_blockArguments := [Float32Type, Float32Type], sort_dimension := 2 ^ 31\<rparr>) =
     Failure ''dimension must be within (0, rank]''"
  by (simp add: sortExample_def SortOp_verify_def enumerate_eq_zip getRank_def)

text \<open>
  C8 (as amended). Sort verification compares shapes exactly: in an operation that passes,
  every output has the rank and the very shape, dynamic markers included, that
  \<open>getOperandRank\<close> and \<open>getOperandShape\<close> return, so any two outputs have the same
  list of extents.
\<close>

theorem sort_outputs_have_the_same_shape_exactly:
  assumes "SortOp_verify op = Success"
  shows "(\<forall>operandType \<in> set (sort_outputs op).
            getShape operandType = operandShape op \<and> getRank operandType = operandRank op) \<and>
         (\<forall>t1 \<in> set (sort_outputs op). \<forall>t2 \<in> set (sort_outputs op). getShape t1 = getShape t2)"
proof -
  have all: "\<forall>(index, operandType) \<in> set (enumerate 0 (sort_outputs op)).
           getRank operandType = operandRank op \<and> getShape operandType = operandShape op"
    using sortOperandLoop_Success [OF SortOp_verify_Success [OF assms]] .
  have "getShape t = operandShape op \<and> getRank t = operandRank op"
    if "t \<in> set (sort_outputs op)" for t
  proof -
    from that obtain i where "i < length (sort_outputs op)" "sort_outputs op ! i = t"
      by (auto simp: in_set_conv_nth)
    then have "(i, t) \<in> set (enumerate 0 (sort_outputs op))"
      by (simp add: in_set_enumerate_eq)
    then show ?thesis using all by auto
  qed
  then show ?thesis by simp
qed

theorem sort_outputs_have_the_same_shape_exactly_witness:
  "SortOp_verify (sortExample\<lparr>sort_outputs := [hd (sort_outputs sortExample), hd (sort_outputs sortExample)]\<rparr>)
     = Success \<and>
   getShape (hd (sort_outputs sortExample)) = operandShape sortExample \<and>
   getRank (hd (sort_outputs sortExample)) = operandRank sortExample"
  using sort_outputs_have_the_same_shape_exactly
    [of "sortExample\<lparr>sort_outputs := [hd (sort_outputs sortExample), hd (sort_outputs sortExample)]\<rparr>"]
  by (simp add: sortExample_def SortOp_verify_def enumerate_eq_zip getRank_def)

text \<open>
  C8 as stated fails: two outputs of rank 2 with the shapes \<open>[4, ?]\<close> and \<open>[4, 8]\<close>, which
  differ only where one extent is dynamic, are rejected by the same-shape rule.
\<close>

theorem sort_dynamic_tolerance_counterexample:
  "verifyCompatibleShape (getShape (sort_outputs sortExample ! 0))
     (getShape (sort_outputs sortExample ! 1)) \<and>
   getRank (sort_outputs sortExample ! 0) = getRank (sort_outputs sortExample ! 1) \<and>
   SortOp_verify sortExample = Failure ''expected operand to have same shape as other operands''"
  by (simp add: sortExample_def SortOp_verify_def enumerate_eq_zip getRank_def
        verifyCompatibleShape_def verifyCompatibleDim_def isDynamic_def kDynamic_def)

section \<open>Attention\<close>

lemma AttentionOp_verifyShapes_untiled:
  assumes "length (attention_dpsInits op) = 1"
    and "AttentionOp_verifyShapes op queryType keyType valueType scaleElementType = Success"
  shows "getShape keyType ! 2 = getShape queryType ! 2 \<and>
         getElementType (attention_dpsInits op ! 0) = getElementType queryType \<and>
         getElementType keyType = getElementType queryType \<and>
         getElementType valueType = getElementType queryType \<and>
         scaleElementType = getElementType queryType"
proof -
  note d = AttentionOp_verifyShapes_def Let_def
  have r: "succeeded (checkShapeRank ''query'' queryType 3)"
    "succeeded (checkShapeRank ''key'' keyType 3)"
    "succeeded (checkShapeRank ''value'' valueType 3)"
    "succeeded (checkShapeRank ''output'' (attention_dpsInits op ! 0) 3)"
    using assms by (auto simp: d checkShapeRank_def split: if_splits)
  have e: "getElementType queryType = getElementType keyType"
    "getElementType queryType = getElementType valueType"
    "getElementType queryType = scaleElementType"
    using assms r by (auto simp: d split: if_splits)
  have o: "getElementType queryType = getElementType (attention_dpsInits op ! 0)"
    using assms r e by (auto simp: d split: if_splits)
  have h: "getShape keyType ! 2 = getShape queryType ! 2"
    using assms r e o by (auto simp: d split: if_splits)
  show ?thesis using e o h by simp
qed

lemma AttentionOp_verify_Success:
  assumes "AttentionOp_verify op = Success"
  shows "\<exists>queryType keyType valueType.
           dyn_cast_ShapedType (attention_dpsInputs op ! 0) = Some queryType \<and>
           dyn_cast_ShapedType (attention_dpsInputs op ! 1) = Some keyType \<and>
           dyn_cast_ShapedType (attention_dpsInputs op ! 2) = Some valueType \<and>
           length (attention_dpsInputs op) = 4 \<and>
           isFloatType (attention_dpsInputs op ! 3) \<and>
           AttentionOp_verifyShapes op queryType keyType valueType (attention_dpsInputs op ! 3)
             = Success"
  using assms
  by (auto simp: AttentionOp_verify_def Let_def split: if_splits option.splits)

text \<open>
  C9. An attention with a single output that passes verification has equal extents at
  axis 2 of key and query, and the element type of the output is the element type
  shared by query, key, value and scale. With query, key, value and output of shape
  \<open>[2, 8, 16]\<close>, an \<open>f32\<close> scale and \<open>f32\<close> elements throughout it passes; with a query
  (and output) head dimension of 32 against the key's 16 it is rejected.
\<close>

theorem untiled_attention_head_dimension_and_element_types:
  "(AttentionOp_verify op = Success \<and> length (attention_dpsInits op) = 1 \<longrightarrow>
      (\<exists>queryType keyType valueType.
         dyn_cast_ShapedType (attention_dpsInputs op ! 0) = Some queryType \<and>
         dyn_cast_ShapedType (attention_dpsInputs op ! 1) = Some keyType \<and>
         dyn_cast_ShapedType (attention_dpsInputs op ! 2) = Some valueType \<and>
         getShape keyType ! 2 = getShape queryType ! 2 \<and>
         getElementType (attention_dpsInits op ! 0) = getElementType queryType \<and>
         getElementType keyType = getElementType queryType \<and>
         getElementType valueType = getElementType queryType \<and>
         attention_dpsInputs op ! 3 = getElementType queryType)) \<and>
   AttentionOp_verify (attentionExample [2, 8, 16]) = Success \<and>
   AttentionOp_verify (attentionExample [2, 8, 32]) =
     Failure ''query and key head dimension mismatch''"
proof (intro conjI impI)
  assume a: "AttentionOp_verify op = Success \<and> length (attention_dpsInits op) = 1"
  from AttentionOp_verify_Success [of op] a obtain queryType keyType valueType where
    c: "dyn_cast_ShapedType (attention_dpsInputs op ! 0) = Some queryType"
       "dyn_cast_ShapedType (attention_dpsInputs op ! 1) = Some keyType"
       "dyn_cast_ShapedType (attention_dpsInputs op ! 2) = Some valueType"
    and v: "AttentionOp_verifyShapes op queryType keyType valueType (attention_dpsInputs op ! 3)
             = Success"
    by blast
  from AttentionOp_verifyShapes_untiled [OF _ v] a c
  show "\<exists>queryType keyType valueType.
         dyn_cast_ShapedType (attention_dpsInputs op ! 0) = Some queryType \<and>
         dyn_cast_ShapedType (attention_dpsInputs op ! 1) = Some keyType \<and>
         dyn_cast_ShapedType (attention_dpsInputs op ! 2) = Some valueType \<and>
         getShape keyType ! 2 = getShape queryType ! 2 \<and>
         getElementType (attention_dpsInits op ! 0) = getElementType queryType \<and>
         getElementType keyType = getElementType queryType \<and>
         getElementType valueType = getElementType queryType \<and>
         attention_dpsInputs op ! 3 = getElementType queryType"
    by simp
next
  show "AttentionOp_verify (attentionExample [2, 8, 16]) = Success"
    by (simp add: attentionExample_def AttentionOp_verify_def AttentionOp_verifyShapes_def
          checkShapeRank_def getRank_def isa_ShapedType_def verifyCompatibleShape_def
          verifyCompatibleDim_def isDynamic_def kDynamic_def Let_def)
next
  show "AttentionOp_verify (attentionExample [2, 8, 32]) =
     Failure ''query and key head dimension mismatch''"
    by (simp add: attentionExample_def AttentionOp_verify_def AttentionOp_verifyShapes_def
          checkShapeRank_def getRank_def isa_ShapedType_def verifyCompatibleShape_def
          verifyCompatibleDim_def isDynamic_def kDynamic_def Let_def)
qed

theorem untiled_attention_head_dimension_and_element_types_witness:
  "AttentionOp_verify (attentionExample [2, 8, 16]) = Success \<and>
   length (attention_dpsInits (attentionExample [2, 8, 16])) = 1 \<and>
   (\<exists>queryType keyType.
      dyn_cast_ShapedType (attention_dpsInputs (attentionExample [2, 8, 16]) ! 0) = Some queryType \<and>
      dyn_cast_ShapedType (attention_dpsInputs (attentionExample [2, 8, 16]) ! 1) = Some keyType \<and>
      getShape keyType ! 2 = getShape queryType ! 2 \<and>
      getElementType (attention_dpsInits (attentionExample [2, 8, 16]) ! 0)
        = getElementType queryType)"
  using untiled_attention_head_dimension_and_element_types [of "attentionExample [2, 8, 16]"]
  by (simp add: attentionExample_def)

section \<open>Winograd input transform\<close>

lemma ceilOfFloatQuotient_8_4: "ceilOfFloatQuotient 8 4 = Some 2"
  by code_simp

lemma ceilOfFloatQuotient_large: "ceilOfFloatQuotient 67108867 4 = Some 16777216"
  by code_simp

lemma upt4: "[0..<4] = [0, 1, 2, 3]"
  by (simp add: upt_rec)

lemma replicate6: "replicate 6 x = [x, x, x, x, x, x]"
  by (simp add: numeral_eq_Suc)

lemma rank4_nhwc_verify:
  assumes "winograd_numDpsInputs op = 1" "winograd_numDpsInits op = 1"
    and "getElementType (winograd_outputType op) = getElementType (winograd_inputType op)"
    and "length (getShape (winograd_inputType op)) = 4"
    and "image_dimensions op = [1, 2]"
  shows "WinogradInputTransformOp_verify op =
     (if length (getShape (winograd_outputType op)) \<noteq> 6 then
        Some (Failure ''expected output rank to be equal to input rank + 2'')
      else (case expectedOutputShapeLoop op (getShape (winograd_inputType op)) [0, 1, 2, 3]
                   (replicate 6 (input_tile_size op)) of
              None \<Rightarrow> None
            | Some expected \<Rightarrow>
                Some (if verifyCompatibleShape expected (getShape (winograd_outputType op))
                      then Success else Failure ''incompatible output shape'')))"
  unfolding WinogradInputTransformOp_verify_def Let_def getRank_def isNchw_def isNhwc_def
  using assms by (simp add: upt4 split: option.splits)


lemma rank4_nhwc_loop:
  assumes "image_dimensions op = [1, 2]"
  shows "expectedOutputShapeLoop op [n, h, w, c] [0, 1, 2, 3] (replicate 6 (input_tile_size op)) =
     (case imageExtent op h of
        None \<Rightarrow> None
      | Some h' \<Rightarrow>
          (case imageExtent op w of
             None \<Rightarrow> None
           | Some w' \<Rightarrow> Some [input_tile_size op, input_tile_size op, n, h', w', c]))"
  using assms
  by (simp add: replicate6 imageExtent_def Let_def split: option.splits)

lemma winogradExample_sel:
  "winograd_numDpsInputs (winogradExample inputShape outputShape) = 1"
  "winograd_numDpsInits (winogradExample inputShape outputShape) = 1"
  "getShape (winograd_inputType (winogradExample inputShape outputShape)) = inputShape"
  "getShape (winograd_outputType (winogradExample inputShape outputShape)) = outputShape"
  "getElementType (winograd_inputType (winogradExample inputShape outputShape)) = Float32Type"
  "getElementType (winograd_outputType (winogradExample inputShape outputShape)) = Float32Type"
  "output_tile_size (winogradExample inputShape outputShape) = 4"
  "kernel_size (winogradExample inputShape outputShape) = 3"
  "input_tile_size (winogradExample inputShape outputShape) = 6"
  "image_dimensions (winogradExample inputShape outputShape) = [1, 2]"
  by (simp_all add: winogradExample_def)

lemma replicate2: "replicate 2 x = [x, x]"
  by (simp add: numeral_2_eq_2)

lemma not_sless_kDynamic: "\<not> word_sless x kDynamic"
proof -
  have "- (2 ^ 63) \<le> sint x" using sint_ge [of x] by simp
  then show ?thesis by (simp add: word_sless_alt kDynamic_def)
qed

text \<open>
  C10. For an input of rank 2 (one input, one output, equal element types) the verifier
  depends on the input shape through dimension 0 only: it rejects a static dimension 0
  above the input tile size, and otherwise accepts exactly the outputs of rank 2
  pointwise compatible with the square of the input tile size. Dimension 1 is never
  looked at with effect: its test applies to a dynamic dimension only, and the dynamic
  marker exceeds no tile size.
\<close>

theorem rank2_input_bound_only_on_dim0:
  assumes "winograd_numDpsInputs op = 1" "winograd_numDpsInits op = 1"
    and "getElementType (winograd_outputType op) = getElementType (winograd_inputType op)"
    and "getRank (winograd_inputType op) = 2"
  shows "WinogradInputTransformOp_verify op =
     Some (if getRank (winograd_outputType op) \<noteq> 2 then
             Failure ''expected output operand to have rank 2 if input is of rank 2''
           else if \<not> isDynamic (getShape (winograd_inputType op) ! 0) \<and>
                   word_sless (input_tile_size op) (getShape (winograd_inputType op) ! 0) then
             Failure (''expected input dims not greater than input tile '' @
                      ''size if input is of rank 2'')
           else if \<not> verifyCompatibleShape (replicate 2 (input_tile_size op))
                       (getShape (winograd_outputType op)) then
             Failure ''expected output dims equal to inputTileSize if input is of rank 2''
           else Success) \<and>
         (\<not> isDynamic (getShape (winograd_inputType op) ! 0) \<and>
          word_sless (input_tile_size op) (getShape (winograd_inputType op) ! 0) \<longrightarrow>
            (\<exists>msg. WinogradInputTransformOp_verify op = Some (Failure msg))) \<and>
         (\<not> isDynamic (getShape (winograd_inputType op) ! 1) \<and>
          word_sless (input_tile_size op) (getShape (winograd_inputType op) ! 1) \<and>
          word_sle (getShape (winograd_inputType op) ! 0) (input_tile_size op) \<and>
          verifyCompatibleShape (replicate 2 (input_tile_size op))
            (getShape (winograd_outputType op)) \<longrightarrow>
            WinogradInputTransformOp_verify op = Some Success)"
proof -
  have d1: "(isDynamic x \<and> word_sless t x) = False" for x t :: int64
    using not_sless_kDynamic by (auto simp: isDynamic_def)
  have v: "WinogradInputTransformOp_verify op =
     Some (if getRank (winograd_outputType op) \<noteq> 2 then
             Failure ''expected output operand to have rank 2 if input is of rank 2''
           else if \<not> isDynamic (getShape (winograd_inputType op) ! 0) \<and>
                   word_sless (input_tile_size op) (getShape (winograd_inputType op) ! 0) then
             Failure (''expected input dims not greater than input tile '' @
                      ''size if input is of rank 2'')
           else if \<not> verifyCompatibleShape (replicate 2 (input_tile_size op))
                       (getShape (winograd_outputType op)) then
             Failure ''expected output dims equal to inputTileSize if input is of rank 2''
           else Success)"
    unfolding WinogradInputTransformOp_verify_def Let_def
    using assms by (simp add: d1)
  have r: "verifyCompatibleShape (replicate 2 (input_tile_size op))
             (getShape (winograd_outputType op)) \<Longrightarrow> getRank (winograd_outputType op) = 2"
    by (simp add: verifyCompatibleShape_def getRank_def)
  have le: "word_sle a b \<Longrightarrow> \<not> word_sless b a" for a b :: int64
    by (simp add: word_sle_eq word_sless_alt)
  show ?thesis
    unfolding v using r le by auto
qed

theorem rank2_input_bound_only_on_dim0_witness:
  "WinogradInputTransformOp_verify (winogradExample [4, 100] [6, 6]) = Some Success \<and>
   WinogradInputTransformOp_verify (winogradExample [100, 4] [6, 6]) =
     Some (Failure (''expected input dims not greater than input tile '' @
                    ''size if input is of rank 2''))"
  using rank2_input_bound_only_on_dim0 [of "winogradExample [4, 100] [6, 6]"]
    rank2_input_bound_only_on_dim0 [of "winogradExample [100, 4] [6, 6]"]
  by (simp add: winogradExample_sel getRank_def isDynamic_def kDynamic_def replicate2
        verifyCompatibleShape_def verifyCompatibleDim_def)

text \<open>The small example of C6: input \<open>[1, 10, 10, 3]\<close> is accepted exactly with the
  outputs of rank 6 compatible with \<open>[6, 6, 1, 2, 2, 3]\<close>.\<close>

lemma winograd_example_verify:
  assumes "length outputShape = 6"
  shows "WinogradInputTransformOp_verify (winogradExample [1, 10, 10, 3] outputShape) =
     Some (if verifyCompatibleShape [6, 6, 1, 2, 2, 3] outputShape then Success
           else Failure ''incompatible output shape'')"
proof -
  let ?op = "winogradExample [1, 10, 10, 3] outputShape"
  have img: "imageExtent ?op 10 = Some 2"
    using ceilOfFloatQuotient_8_4
    by (simp add: imageExtent_def winogradExample_sel isDynamic_def kDynamic_def)
  have "expectedOutputShapeLoop ?op [1, 10, 10, 3] [0, 1, 2, 3] (replicate 6 (input_tile_size ?op))
          = Some [6, 6, 1, 2, 2, 3]"
    using rank4_nhwc_loop [of ?op 1 10 10 3] img by (simp add: winogradExample_sel)
  then show ?thesis
    using assms rank4_nhwc_verify [of ?op] by (simp add: winogradExample_sel)
qed

lemma winograd_large_verify:
  assumes "length outputShape = 6"
  shows "WinogradInputTransformOp_verify (winogradExample [1, 67108869, 10, 3] outputShape) =
     Some (if verifyCompatibleShape [6, 6, 1, 16777216, 2, 3] outputShape then Success
           else Failure ''incompatible output shape'')"
proof -
  let ?op = "winogradExample [1, 67108869, 10, 3] outputShape"
  have img: "imageExtent ?op 10 = Some 2"
    using ceilOfFloatQuotient_8_4
    by (simp add: imageExtent_def winogradExample_sel isDynamic_def kDynamic_def)
  have img': "imageExtent ?op 67108869 = Some 16777216"
    using ceilOfFloatQuotient_large
    by (simp add: imageExtent_def winogradExample_sel isDynamic_def kDynamic_def)
  have "expectedOutputShapeLoop ?op [1, 67108869, 10, 3] [0, 1, 2, 3] (replicate 6 (input_tile_size ?op))
          = Some [6, 6, 1, 16777216, 2, 3]"
    using rank4_nhwc_loop [of ?op 1 67108869 10 3] img img' by (simp add: winogradExample_sel)
  then show ?thesis
    using assms rank4_nhwc_verify [of ?op] by (simp add: winogradExample_sel)
qed

text \<open>
  C6 fails on the code. The image extent 67108869 gives \<open>e - kernelSize + 1 = 67108867\<close>,
  whose ceiling of the quotient by 4 is 16777217; in single precision 67108867 rounds to
  \<open>2\<^sup>2\<^sup>6\<close>, and the verifier expects 16777216: it rejects the output shape with the
  ceiling and accepts the one below.
\<close>

theorem winograd_image_extent_in_single_precision:
  "WinogradInputTransformOp_verify
     (winogradExample [1, 67108869, 10, 3] [6, 6, 1, 16777217, 2, 3]) =
     Some (Failure ''incompatible output shape'') \<and>
   WinogradInputTransformOp_verify
     (winogradExample [1, 67108869, 10, 3] [6, 6, 1, 16777216, 2, 3]) = Some Success \<and>
   \<lceil>(67108869 - 3 + 1 :: real) / 4\<rceil> = 16777217"
proof (intro conjI)
  show "WinogradInputTransformOp_verify
     (winogradExample [1, 67108869, 10, 3] [6, 6, 1, 16777217, 2, 3]) =
     Some (Failure ''incompatible output shape'')"
    by (simp add: winograd_large_verify verifyCompatibleShape_def verifyCompatibleDim_def
          isDynamic_def kDynamic_def)
  show "WinogradInputTransformOp_verify
     (winogradExample [1, 67108869, 10, 3] [6, 6, 1, 16777216, 2, 3]) = Some Success"
    by (simp add: winograd_large_verify verifyCompatibleShape_def verifyCompatibleDim_def
          isDynamic_def kDynamic_def)
  have "\<lceil>(67108867 :: real) / 4\<rceil> = 16777217"
    by simp
  then show "\<lceil>(67108869 - 3 + 1 :: real) / 4\<rceil> = 16777217" by simp
qed

section \<open>The single-precision ceiling on small operands\<close>

text \<open>Where the dividend is below \<open>2\<^sup>2\<^sup>4\<close> and the divisor at most \<open>2\<^sup>2\<^sup>4\<close>, both
  convert to \<open>float\<close> without rounding and the rounding of their quotient does not cross
  an integer: the single-precision ceiling of line 1026 is the ceiling.\<close>

lemma bitLength_pos:
  assumes "0 < n"
  shows "0 < bitLength n \<and> 2 ^ nat (bitLength n - 1) \<le> n \<and> n < 2 ^ nat (bitLength n)"
  using assms
proof (induction n rule: bitLength.induct)
  case (1 n)
  show ?case
  proof (cases "n = 1")
    case True
    then show ?thesis by (simp add: bitLength.simps)
  next
    case False
    then have h: "0 < n div 2" using "1.prems" by simp
    have IH: "0 < bitLength (n div 2) \<and> 2 ^ nat (bitLength (n div 2) - 1) \<le> n div 2 \<and>
              n div 2 < 2 ^ nat (bitLength (n div 2))"
      using "1.IH" "1.prems" h by simp
    let ?b = "bitLength (n div 2)"
    have b: "bitLength n = 1 + ?b" using "1.prems" by (subst bitLength.simps) simp
    have p: "nat (1 + ?b - 1) = Suc (nat (?b - 1))" "nat (1 + ?b) = Suc (nat ?b)"
      using IH by arith+
    have "2 * 2 ^ nat (?b - 1) \<le> n" using IH by linarith
    moreover have "n < 2 * 2 ^ nat ?b" using IH by linarith
    ultimately show ?thesis using IH unfolding b p by simp
  qed
qed

lemma of_int_le_pow2: "(k::int) \<le> 2 ^ n \<Longrightarrow> (of_int k :: rat) \<le> 2 ^ n"
  by (metis of_int_le_iff of_int_numeral of_int_power)

lemma pow2_le_of_int: "2 ^ n \<le> (k::int) \<Longrightarrow> (2 ^ n :: rat) \<le> of_int k"
  by (metis of_int_le_iff of_int_numeral of_int_power)

lemma floorLog2_bounds:
  fixes x :: rat
  assumes "0 < x"
  shows "2 powi (floorLog2 x) \<le> x \<and> x < 2 powi (floorLog2 x + 1)"
proof (cases "1 \<le> x")
  case True
  let ?m = "\<lfloor>x\<rfloor>"
  let ?b = "bitLength ?m"
  have m: "0 < ?m" using True by simp
  from bitLength_pos [OF m] have b: "0 < ?b" "2 ^ nat (?b - 1) \<le> ?m" "?m < 2 ^ nat ?b"
    by simp_all
  have e: "floorLog2 x = ?b - 1" using True by (simp add: floorLog2_def)
  have "(2::rat) powi (?b - 1) = 2 ^ nat (?b - 1)"
    using b(1) by (simp add: power_int_def)
  also have "\<dots> \<le> of_int ?m" using b(2) by (rule pow2_le_of_int)
  also have "\<dots> \<le> x" by simp
  finally have lo: "2 powi (?b - 1) \<le> x" .
  have "?m + 1 \<le> 2 ^ nat ?b" using b(3) by simp
  then have "(of_int (?m + 1) :: rat) \<le> 2 ^ nat ?b" by (rule of_int_le_pow2)
  moreover have "x < of_int (?m + 1)" by linarith
  ultimately have "x < 2 ^ nat ?b" by linarith
  also have "\<dots> = 2 powi ?b" using b(1) by (simp add: power_int_def)
  finally have hi: "x < 2 powi ?b" .
  show ?thesis using lo hi e by simp
next
  case False
  let ?y = "1 / x"
  let ?c = "\<lceil>?y\<rceil>"
  let ?b = "bitLength (?c - 1)"
  have y: "1 < ?y" using False assms by simp
  then have c: "0 < ?c - 1" by linarith
  from bitLength_pos [OF c] have b: "0 < ?b" "2 ^ nat (?b - 1) \<le> ?c - 1" "?c - 1 < 2 ^ nat ?b"
    by simp_all
  have e: "floorLog2 x = - ?b" using False by (simp add: floorLog2_def)
  have "?c \<le> 2 ^ nat ?b" using b(3) by simp
  then have "(of_int ?c :: rat) \<le> 2 ^ nat ?b" by (rule of_int_le_pow2)
  moreover have "?y \<le> of_int ?c" by (rule le_of_int_ceiling)
  ultimately have yhi: "?y \<le> 2 ^ nat ?b" by linarith
  have "(2 ^ nat (?b - 1) :: rat) \<le> of_int (?c - 1)"
    using b(2) by (rule pow2_le_of_int)
  moreover have "of_int (?c - 1) < ?y" by linarith
  ultimately have ylo: "2 ^ nat (?b - 1) < ?y" by linarith
  have lo: "2 powi (- ?b) \<le> x"
  proof -
    have "1 \<le> x * 2 ^ nat ?b" using yhi assms by (simp add: field_simps)
    then have "1 / 2 ^ nat ?b \<le> x" by (simp add: field_simps)
    moreover have "(2::rat) powi (- ?b) = 1 / 2 ^ nat ?b"
      using b(1) by (simp add: power_int_def field_simps)
    ultimately show ?thesis by simp
  qed
  have hi: "x < 2 powi (- ?b + 1)"
  proof -
    have "x * 2 ^ nat (?b - 1) < 1" using ylo assms by (simp add: field_simps)
    then have "x < 1 / 2 ^ nat (?b - 1)" by (simp add: field_simps)
    moreover have "(2::rat) powi (- ?b + 1) = 1 / 2 ^ nat (?b - 1)"
    proof (cases "?b = 1")
      case True
      then show ?thesis by simp
    next
      case False
      then have "- ?b + 1 < 0" using b(1) by simp
      moreover have "nat (- (- ?b + 1)) = nat (?b - 1)" by simp
      ultimately show ?thesis by (simp add: power_int_def field_simps)
    qed
    ultimately show ?thesis by simp
  qed
  show ?thesis using lo hi e by simp
qed

lemma roundHalfEven_of_int: "roundHalfEven (of_int k) = k"
  by (simp add: roundHalfEven_def)

lemma roundHalfEven_bounds: "\<lfloor>y\<rfloor> \<le> roundHalfEven y \<and> roundHalfEven y \<le> \<lfloor>y\<rfloor> + 1"
  by (simp add: roundHalfEven_def Let_def)

lemma roundHalfEven_up:
  assumes "1 / 2 < y - of_int \<lfloor>y\<rfloor>"
  shows "roundHalfEven y = \<lfloor>y\<rfloor> + 1"
  using assms by (simp add: roundHalfEven_def Let_def)

lemma roundToFloat_exact:
  fixes x :: rat
  assumes "x \<noteq> 0" "x / 2 powi (floorLog2 \<bar>x\<bar> - 23) = of_int K"
  shows "roundToFloat x = x"
proof -
  let ?u = "(2::rat) powi (floorLog2 \<bar>x\<bar> - 23)"
  have u: "?u \<noteq> 0" by simp
  have "roundToFloat x = of_int (roundHalfEven (x / ?u)) * ?u"
    using assms(1) by (simp add: roundToFloat_def Let_def)
  also have "\<dots> = of_int K * ?u" by (simp only: assms(2) roundHalfEven_of_int)
  also have "\<dots> = (x / ?u) * ?u" by (simp only: assms(2))
  also have "\<dots> = x" using u by simp
  finally show ?thesis .
qed

lemma roundToFloat_of_int:
  assumes "0 < m" "m \<le> 2 ^ 24"
  shows "roundToFloat (of_int m) = of_int m"
proof -
  let ?x = "of_int m :: rat"
  let ?e = "floorLog2 \<bar>?x\<bar>"
  have x: "0 < ?x" using assms(1) by simp
  then have ax: "\<bar>?x\<bar> = ?x" by simp
  from floorLog2_bounds [OF x] have b: "2 powi ?e \<le> ?x" "?x < 2 powi (?e + 1)"
    unfolding ax by simp_all
  have x24: "?x \<le> 2 ^ 24" using assms(2) by (rule of_int_le_pow2)
  have e24: "?e \<le> 24"
  proof (rule ccontr)
    assume "\<not> ?e \<le> 24"
    then have "(2::rat) powi 25 \<le> 2 powi ?e" by (intro power_int_increasing) simp_all
    then show False using b(1) x24 by simp
  qed
  show ?thesis
  proof (cases "?e \<le> 23")
    case True
    have "?x / 2 powi (?e - 23) = ?x * 2 powi (23 - ?e)"
      by (simp add: power_int_diff field_simps)
    also have "\<dots> = ?x * 2 ^ nat (23 - ?e)" using True by (simp add: power_int_def)
    also have "\<dots> = of_int (m * 2 ^ nat (23 - ?e))" by simp
    finally have eq: "?x / 2 powi (?e - 23) = of_int (m * 2 ^ nat (23 - ?e))" .
    show ?thesis by (rule roundToFloat_exact [OF _ eq]) (use x in simp)
  next
    case False
    then have e: "?e = 24" using e24 by simp
    then have "(2::rat) ^ 24 \<le> ?x" using b(1) by simp
    then have m: "?x = 2 ^ 24" using x24 by simp
    have "?x / 2 powi (?e - 23) = ?x / 2" by (simp only: e) simp
    also have "\<dots> = of_int (2 ^ 23)" by (simp only: m) simp
    finally have eq: "?x / 2 powi (?e - 23) = of_int (2 ^ 23)" .
    show ?thesis by (rule roundToFloat_exact [OF _ eq]) (use x in simp)
  qed
qed

lemma ceiling_divide_rat: "\<lceil>(of_int a / of_int b :: rat)\<rceil> = - ((- a) div b)"
proof -
  have "\<lceil>(of_int a / of_int b :: rat)\<rceil> = - \<lfloor>(of_int (- a) / of_int b :: rat)\<rfloor>"
    by (simp add: ceiling_def)
  then show ?thesis by (simp only: floor_divide_of_int_eq)
qed

lemma ceiling_roundToFloat_nonintegral:
  fixes q :: rat and n d K :: int
  assumes q: "q = of_int n / of_int d"
    and n: "0 < n" "n < 2 ^ 24" and d: "0 < d"
    and K: "of_int K < q" "q < of_int K + 1"
  shows "of_int K < roundToFloat q \<and> roundToFloat q \<le> of_int K + 1"
proof -
  have dpos: "(0::rat) < of_int d" using d by simp
  have qpos: "0 < q" unfolding q using n(1) d by simp
  have qd: "q * of_int d = of_int n" unfolding q using dpos by simp
  have n24: "(of_int n :: rat) < 2 ^ 24"
    using n(2) by (metis of_int_less_iff of_int_numeral of_int_power)
  have qn: "q \<le> of_int n"
  proof -
    have "(1::rat) \<le> of_int d" using d by simp
    then have "q * 1 \<le> q * of_int d" using qpos by (intro mult_left_mono) simp_all
    then show ?thesis using qd by simp
  qed
  define e where "e = floorLog2 \<bar>q\<bar>"
  have aq: "\<bar>q\<bar> = q" using qpos by (rule abs_of_pos)
  from floorLog2_bounds [OF qpos] have b: "2 powi e \<le> q"
    unfolding e_def aq by simp
  have e23: "e \<le> 23"
  proof (rule ccontr)
    assume "\<not> e \<le> 23"
    then have "(2::rat) powi 24 \<le> 2 powi e" by (intro power_int_increasing) simp_all
    then show False using b qn n24 by simp
  qed
  define j where "j = nat (23 - e)"
  define p :: rat where "p = 2 ^ j"
  have ppos: "0 < p" by (simp add: p_def)
  have u: "(2::rat) powi (e - 23) = 1 / p"
  proof -
    have "(2::rat) powi (e - 23) = 1 / 2 powi (23 - e)"
      by (simp add: power_int_diff field_simps)
    also have "\<dots> = 1 / p" using e23 by (simp add: power_int_def j_def p_def)
    finally show ?thesis .
  qed
  have pe: "2 powi e * (2 * p) = (2::rat) ^ 24"
  proof -
    have "2 * p = (2::rat) powi (24 - e)"
      using e23 by (simp add: power_int_def j_def p_def Suc_nat_eq_nat_zadd1 flip: power_Suc)
    moreover have "(2::rat) powi e * 2 powi (24 - e) = 2 powi (e + (24 - e))"
      by (rule power_int_add [symmetric]) simp
    moreover have "(2::rat) powi (e + (24 - e)) = 2 ^ 24" by simp
    ultimately show ?thesis by (simp only:)
  qed
  define y where "y = q * p"
  have q0: "q \<noteq> 0" using qpos by linarith
  have "roundToFloat q = of_int (roundHalfEven (q / 2 powi (e - 23))) * 2 powi (e - 23)"
    unfolding roundToFloat_def Let_def e_def using q0 by (simp only: if_False)
  then have rt: "roundToFloat q = of_int (roundHalfEven y) / p"
    unfolding u y_def by simp
  define Kp where "Kp = K * 2 ^ j"
  have Kp: "(of_int Kp :: rat) = of_int K * p" by (simp add: Kp_def p_def)
  have Kp1: "(of_int (Kp + 2 ^ j) :: rat) = (of_int K + 1) * p"
    by (simp add: Kp_def p_def algebra_simps)
  have ylo: "of_int Kp < y" unfolding Kp y_def using K(1) ppos by (simp add: mult_strict_right_mono)
  have yhi: "y < of_int (Kp + 2 ^ j)"
    unfolding Kp1 y_def using K(2) ppos by (simp add: mult_strict_right_mono)
  have fl: "Kp \<le> \<lfloor>y\<rfloor>" using ylo by (simp add: le_floor_iff less_imp_le)
  have "\<lfloor>y\<rfloor> < Kp + 2 ^ j" using yhi by (simp only: floor_less_iff)
  then have fh: "\<lfloor>y\<rfloor> + 1 \<le> Kp + 2 ^ j" by simp
  have up: "roundHalfEven y \<le> Kp + 2 ^ j"
    using roundHalfEven_bounds [of y] fh by linarith
  have dlt: "(of_int d :: rat) < 2 * p"
  proof -
    have "2 powi e * of_int d \<le> q * of_int d"
      using b dpos by (intro mult_right_mono) simp_all
    then have "(2::rat) powi e * of_int d < 2 powi e * (2 * p)"
      unfolding pe qd using n24 by linarith
    then show ?thesis by (simp add: mult_less_cancel_left_pos)
  qed
  have frac: "1 \<le> (q - of_int K) * of_int d"
  proof -
    have "of_int K * of_int d < q * (of_int d :: rat)"
      using K(1) dpos by (simp add: mult_strict_right_mono)
    then have "(of_int (K * d) :: rat) < of_int n" unfolding qd by simp
    then have "K * d < n" by (simp only: of_int_less_iff)
    then have "K * d + 1 \<le> n" by simp
    then have "(of_int (K * d + 1) :: rat) \<le> of_int n" by (simp only: of_int_le_iff)
    then have "of_int K * of_int d + 1 \<le> q * (of_int d :: rat)" unfolding qd by simp
    then show ?thesis by (simp add: algebra_simps)
  qed
  have half: "1 / 2 < (q - of_int K) * p"
  proof -
    have "of_int d < 2 * p * ((q - of_int K) * of_int d)"
    proof -
      have "(of_int d :: rat) * 1 < 2 * p * 1" using dlt by simp
      also have "\<dots> \<le> 2 * p * ((q - of_int K) * of_int d)"
        using frac ppos by (intro mult_left_mono) simp_all
      finally show ?thesis by simp
    qed
    then have "of_int d * 1 < of_int d * (2 * p * (q - of_int K))" by (simp add: algebra_simps)
    then have "1 < 2 * p * (q - of_int K)" using dpos by (simp only: mult_less_cancel_left_pos)
    then show ?thesis by (simp add: algebra_simps)
  qed
  have lo: "Kp + 1 \<le> roundHalfEven y"
  proof (cases "\<lfloor>y\<rfloor> = Kp")
    case True
    have "(of_int \<lfloor>y\<rfloor> :: rat) = of_int K * p" using Kp by (simp only: True)
    moreover have "(q - of_int K) * p = y - of_int K * p" by (simp add: y_def algebra_simps)
    ultimately have "1 / 2 < y - of_int \<lfloor>y\<rfloor>" using half by (simp only:)
    then have "roundHalfEven y = \<lfloor>y\<rfloor> + 1" by (rule roundHalfEven_up)
    then show ?thesis using True by simp
  next
    case False
    then have "Kp + 1 \<le> \<lfloor>y\<rfloor>" using fl by simp
    then show ?thesis using roundHalfEven_bounds [of y] by linarith
  qed
  have "of_int K < roundToFloat q"
  proof -
    have "Kp < roundHalfEven y" using lo by simp
    then have "(of_int Kp :: rat) < of_int (roundHalfEven y)" by (simp only: of_int_less_iff)
    then show ?thesis unfolding rt Kp using ppos by (simp add: pos_less_divide_eq)
  qed
  moreover have "roundToFloat q \<le> of_int K + 1"
  proof -
    have "(of_int (roundHalfEven y) :: rat) \<le> of_int (Kp + 2 ^ j)"
      using up by (simp only: of_int_le_iff)
    then show ?thesis unfolding rt Kp1 using ppos by (simp add: pos_divide_le_eq)
  qed
  ultimately show ?thesis by simp
qed

lemma ceiling_roundToFloat_quotient:
  fixes n d :: int
  assumes "0 < n" "n < 2 ^ 24" "0 < d"
  shows "\<lceil>roundToFloat (of_int n / of_int d)\<rceil> = \<lceil>(of_int n / of_int d :: rat)\<rceil>"
proof -
  define q :: rat where "q = of_int n / of_int d"
  define K where "K = \<lfloor>q\<rfloor>"
  have qpos: "0 < q" unfolding q_def using assms by simp
  have "\<lceil>roundToFloat q\<rceil> = \<lceil>q\<rceil>"
  proof (cases "q = of_int K")
    case True
    have "0 < K" using qpos True by (metis of_int_0_less_iff)
    moreover have "K \<le> 2 ^ 24"
    proof -
      have "(1::rat) \<le> of_int d" using assms(3) by simp
      moreover have "(0::rat) \<le> of_int n" using assms(1) by simp
      ultimately have "of_int n / of_int d \<le> (of_int n :: rat)"
        by (simp add: divide_le_eq mult_le_cancel_left1)
      then have "\<lfloor>q\<rfloor> \<le> \<lfloor>(of_int n :: rat)\<rfloor>" unfolding q_def by (rule floor_mono)
      then have "K \<le> n" unfolding K_def by (simp only: floor_of_int)
      then show ?thesis using assms(2) by linarith
    qed
    ultimately have "roundToFloat (of_int K) = of_int K" by (rule roundToFloat_of_int)
    then show ?thesis using True by simp
  next
    case False
    have "of_int K \<le> q" unfolding K_def by (rule of_int_floor_le)
    then have K1: "of_int K < q" using False by linarith
    have K2: "q < of_int K + 1" unfolding K_def by linarith
    from ceiling_roundToFloat_nonintegral [OF q_def assms K1 K2]
    have "\<lceil>roundToFloat q\<rceil> = K + 1" by (intro ceiling_unique) simp_all
    moreover have "\<lceil>q\<rceil> = K + 1" using K1 K2 by (intro ceiling_unique) simp_all
    ultimately show ?thesis by simp
  qed
  then show ?thesis unfolding q_def .
qed

lemma roundToFloat_of_nonneg_int:
  assumes "0 \<le> m" "m \<le> 2 ^ 24"
  shows "roundToFloat (of_int m) = of_int m"
proof (cases "m = 0")
  case True
  then show ?thesis by (simp add: roundToFloat_def)
next
  case False
  then have "0 < m" using assms(1) by simp
  then show ?thesis using assms(2) by (rule roundToFloat_of_int)
qed

lemma ceilOfFloatQuotient_exact:
  assumes "0 \<le> sint n" "sint n < 2 ^ 24" "0 < sint d" "sint d \<le> 2 ^ 24"
  shows "ceilOfFloatQuotient n d = Some (ceilDiv n d)"
proof -
  have fn: "roundToFloat (of_int (sint n)) = of_int (sint n)"
    using assms(1,2) by (intro roundToFloat_of_nonneg_int) simp_all
  have fd: "roundToFloat (of_int (sint d)) = of_int (sint d)"
    using assms(3,4) by (intro roundToFloat_of_nonneg_int) simp_all
  have fd0: "(of_int (sint d) :: rat) \<noteq> 0"
  proof
    assume "(of_int (sint d) :: rat) = 0"
    then have "sint d = 0" by (simp only: of_int_eq_0_iff)
    then show False using assms(3) by linarith
  qed
  have c: "\<lceil>roundToFloat (of_int (sint n) / of_int (sint d))\<rceil> = - ((- sint n) div sint d)"
  proof (cases "sint n = 0")
    case True
    show ?thesis by (simp only: True) (simp add: roundToFloat_def)
  next
    case False
    then have "0 < sint n" using assms(1) by linarith
    from ceiling_roundToFloat_quotient [OF this assms(2,3)]
    show ?thesis by (simp only: ceiling_divide_rat)
  qed
  have "- (2 ^ 63) < (- sint n) div sint d \<and> (- sint n) div sint d < 2 ^ 63"
    using assms by (intro div_bounds) simp_all
  then have r: "\<not> (- ((- sint n) div sint d) < - (2 ^ 63) \<or> 2 ^ 63 \<le> - ((- sint n) div sint d))"
    by simp
  show ?thesis
    unfolding ceilOfFloatQuotient_def Let_def fn fd c ceilDiv_def
    using fd0 r by (simp only: if_False)
qed

text \<open>On such extents the rank-4 channel-last form is verified against the shape with the
  two tile axes in front, the exact tile counts at the image axes and the other axes
  passed through.\<close>

lemma imageExtent_exact:
  assumes "0 < sint (output_tile_size op)" "sint (output_tile_size op) \<le> 2 ^ 24"
    and "isDynamic extent \<or>
         (0 \<le> sint (extent - kernel_size op + 1) \<and> sint (extent - kernel_size op + 1) < 2 ^ 24)"
  shows "imageExtent op extent = Some (exactImageExtent op extent)"
proof (cases "isDynamic extent")
  case True
  then show ?thesis by (simp add: imageExtent_def exactImageExtent_def)
next
  case False
  then have "0 \<le> sint (extent - kernel_size op + 1)" "sint (extent - kernel_size op + 1) < 2 ^ 24"
    using assms(3) by simp_all
  from ceilOfFloatQuotient_exact [OF this assms(1,2)] False
  show ?thesis by (simp add: imageExtent_def exactImageExtent_def)
qed

lemma winograd_rank4_nhwc_small_extents:
  assumes "winograd_numDpsInputs op = 1" "winograd_numDpsInits op = 1"
    and "getElementType (winograd_outputType op) = getElementType (winograd_inputType op)"
    and "getShape (winograd_inputType op) = [n, h, w, c]"
    and "image_dimensions op = [1, 2]"
    and "length (getShape (winograd_outputType op)) = 6"
    and "0 < sint (output_tile_size op)" "sint (output_tile_size op) \<le> 2 ^ 24"
    and "isDynamic h \<or>
         (0 \<le> sint (h - kernel_size op + 1) \<and> sint (h - kernel_size op + 1) < 2 ^ 24)"
    and "isDynamic w \<or>
         (0 \<le> sint (w - kernel_size op + 1) \<and> sint (w - kernel_size op + 1) < 2 ^ 24)"
  shows "WinogradInputTransformOp_verify op =
     Some (if verifyCompatibleShape
                [input_tile_size op, input_tile_size op, n,
                 exactImageExtent op h, exactImageExtent op w, c]
                (getShape (winograd_outputType op))
           then Success else Failure ''incompatible output shape'')"
proof -
  have h: "imageExtent op h = Some (exactImageExtent op h)"
    using assms(7,8,9) by (rule imageExtent_exact)
  have w: "imageExtent op w = Some (exactImageExtent op w)"
    using assms(7,8,10) by (rule imageExtent_exact)
  have "expectedOutputShapeLoop op [n, h, w, c] [0, 1, 2, 3] (replicate 6 (input_tile_size op)) =
          Some [input_tile_size op, input_tile_size op, n,
                exactImageExtent op h, exactImageExtent op w, c]"
    using rank4_nhwc_loop [OF assms(5), of n h w c] h w by simp
  then show ?thesis
    using rank4_nhwc_verify [OF assms(1-3) _ assms(5)] assms(4,6) by simp
qed

end
